theory Spec2Isabelle
  imports Complex_Main "HOL-Library.Word"
begin

section \<open>The colour matcher server (color_matcher_server.py)\<close>

subsection \<open>Catalogue entries and Python floats\<close>

text \<open>
  An entry of \<^verbatim>\<open>DULUX_COLORS\<close> is a dictionary with the six keys
  \<^verbatim>\<open>name, code, r, g, b, lrv\<close>. The record fields carry the prefix \<open>col_\<close>, since
  \<open>r\<close>, \<open>g\<close> and \<open>b\<close> are wanted as variable names. Python integers are unbounded
  (\<open>int\<close>); Python floats are read as real numbers, extended by the one non-finite
  value the code uses, \<^verbatim>\<open>float('inf')\<close>. For channel values in 0..255 the squared
  distance is an integer below \<open>2 ^ 18\<close>, on which the correctly rounded square root
  of IEEE doubles is strictly monotone, so comparing the real square roots decides
  every \<^verbatim>\<open>distance < min_distance\<close> of the code the same way.
\<close>

record color =
  col_name :: string
  col_code :: string
  col_r :: int
  col_g :: int
  col_b :: int
  col_lrv :: real

datatype pyfloat = Finite real | PosInf

text \<open>\<^verbatim>\<open>distance < min_distance\<close>, with a finite left-hand side.\<close>

fun float_less :: "real \<Rightarrow> pyfloat \<Rightarrow> bool" where
  "float_less d PosInf = True"
| "float_less d (Finite m) = (d < m)"

definition DULUX_COLORS :: "color list" where
  "DULUX_COLORS =
    [\<lparr>col_name = ''Vivid White'', col_code = ''W01A1'',
        col_r = 255, col_g = 255, col_b = 255, col_lrv = 90\<rparr>,
     \<lparr>col_name = ''First Love Quarter'', col_code = ''P08H1Q'',
        col_r = 255, col_g = 248, col_b = 240, col_lrv = 872 / 10\<rparr>,
     \<lparr>col_name = ''Pink Tutu Quarter'', col_code = ''P04H1Q'',
        col_r = 255, col_g = 233, col_b = 247, col_lrv = 844 / 10\<rparr>,
     \<lparr>col_name = ''Cruel Sea'', col_code = ''P29A9'',
        col_r = 33, col_g = 26, col_b = 27, col_lrv = 55 / 10\<rparr>,
     \<lparr>col_name = ''Decorum'', col_code = ''P02D3'',
        col_r = 179, col_g = 154, col_b = 161, col_lrv = 40\<rparr>,
     \<lparr>col_name = ''Deep Leather'', col_code = ''P05B9'',
        col_r = 39, col_g = 17, col_b = 0, col_lrv = 59 / 10\<rparr>]"

subsection \<open>\<^verbatim>\<open>calculate_color_distance\<close> and \<^verbatim>\<open>find_closest_color\<close>\<close>

definition calculate_color_distance :: "int \<Rightarrow> int \<Rightarrow> int \<Rightarrow> int \<Rightarrow> int \<Rightarrow> int \<Rightarrow> real" where
  "calculate_color_distance r1 g1 b1 r2 g2 b2 =
     sqrt (real_of_int ((r1 - r2)\<^sup>2 + (g1 - g2)\<^sup>2 + (b1 - b2)\<^sup>2))"

text \<open>
  The body of the \<^verbatim>\<open>for color in DULUX_COLORS\<close> loop, on the pair
  \<open>(best_match, min_distance)\<close>, and the loop itself. The source reads the module-level
  list; the model takes the catalogue as its first argument.
\<close>

definition loop_body :: "int \<Rightarrow> int \<Rightarrow> int \<Rightarrow> color \<Rightarrow> color option \<times> pyfloat \<Rightarrow> color option \<times> pyfloat" where
  "loop_body target_r target_g target_b color acc =
     (let distance = calculate_color_distance target_r target_g target_b
                        (col_r color) (col_g color) (col_b color)
      in if float_less distance (snd acc) then (Some color, Finite distance) else acc)"

fun closest_loop :: "int \<Rightarrow> int \<Rightarrow> int \<Rightarrow> color list \<Rightarrow> color option \<times> pyfloat \<Rightarrow> color option \<times> pyfloat" where
  "closest_loop target_r target_g target_b [] acc = acc"
| "closest_loop target_r target_g target_b (color # rest) acc =
     closest_loop target_r target_g target_b rest (loop_body target_r target_g target_b color acc)"

definition find_closest_color :: "color list \<Rightarrow> int \<Rightarrow> int \<Rightarrow> int \<Rightarrow> color option \<times> pyfloat" where
  "find_closest_color catalog target_r target_g target_b =
     closest_loop target_r target_g target_b catalog (None, PosInf)"

text \<open>The distance of an entry from the target, as the loop computes it.\<close>

abbreviation distance_to :: "int \<Rightarrow> int \<Rightarrow> int \<Rightarrow> color \<Rightarrow> real" where
  "distance_to target_r target_g target_b color \<equiv>
     calculate_color_distance target_r target_g target_b (col_r color) (col_g color) (col_b color)"

abbreviation rgb_of :: "color \<Rightarrow> int \<times> int \<times> int" where
  "rgb_of color \<equiv> (col_r color, col_g color, col_b color)"

subsection \<open>The request handler \<^verbatim>\<open>color_match\<close>\<close>

text \<open>
  A query parameter is absent, a text that \<^verbatim>\<open>int()\<close> parses, or a text on which
  \<^verbatim>\<open>int()\<close> raises \<^verbatim>\<open>ValueError\<close>. \<^verbatim>\<open>request.args.get('r', 0)\<close> gives 0 for
  an absent one.
\<close>

datatype qparam = Missing | IntText int | BadText

fun int_of_qparam :: "qparam \<Rightarrow> int option" where
  "int_of_qparam Missing = Some 0"
| "int_of_qparam (IntText n) = Some n"
| "int_of_qparam BadText = None"

text \<open>
  \<^verbatim>\<open>round(distance, 2)\<close>: to the nearest multiple of 1/100, ties to the even one.
\<close>

definition round2 :: "real \<Rightarrow> real" where
  "round2 d =
     (let s = d * 100; f = \<lfloor>s\<rfloor>; frac = s - of_int f
      in of_int (if frac < 1 / 2 then f
                 else if 1 / 2 < frac then f + 1
                 else if even f then f else f + 1) / 100)"

fun round2_float :: "pyfloat \<Rightarrow> pyfloat" where
  "round2_float (Finite d) = Finite (round2 d)"
| "round2_float PosInf = PosInf"

text \<open>
  The responses: 200 with the match, the rounded distance and the input; 400 for
  channel values outside 0..255; 404 when no match was found; 400 for a parameter that
  is not an integer. The handler's last \<^verbatim>\<open>except Exception\<close> (500) has no statement
  of the modelled body that reaches it.
\<close>

datatype match_response =
    Match_found color pyfloat "int \<times> int \<times> int"
  | Invalid_rgb_values
  | No_color_match_found
  | Invalid_rgb_parameters

definition color_match :: "color list \<Rightarrow> qparam \<Rightarrow> qparam \<Rightarrow> qparam \<Rightarrow> match_response" where
  "color_match catalog pr pg pb =
     (case (int_of_qparam pr, int_of_qparam pg, int_of_qparam pb) of
        (Some r, Some g, Some b) \<Rightarrow>
          if \<not> (0 \<le> r \<and> r \<le> 255 \<and> 0 \<le> g \<and> g \<le> 255 \<and> 0 \<le> b \<and> b \<le> 255)
          then Invalid_rgb_values
          else (case find_closest_color catalog r g b of
                  (Some match, distance) \<Rightarrow> Match_found match (round2_float distance) (r, g, b)
                | (None, distance) \<Rightarrow> No_color_match_found)
      | _ \<Rightarrow> Invalid_rgb_parameters)"

section \<open>The mock device server (mock_esp32_server.py)\<close>

subsection \<open>Device state and request bodies\<close>

text \<open>
  \<^verbatim>\<open>device_state\<close> is a module-level dictionary with a fixed set of keys; the handlers
  assign to its entries in place, so every handler of the model takes the state and
  returns the state it leaves behind, also when it answers with an error.
\<close>

record device_state =
  isScanning :: bool
  ledState :: bool
  isCalibrated :: bool
  currentR :: int
  currentG :: int
  currentB :: int
  sampleCount :: int
  atime :: int
  again :: int
  brightness :: int
  ambientLux :: real
  autoZeroMode :: int
  autoZeroFreq :: int
  waitTime :: int
  esp32IP :: string
  clientIP :: string
  gateway :: string
  subnet :: string
  macAddress :: string
  rssi :: int

definition initial_device_state :: device_state where
  "initial_device_state =
     \<lparr>isScanning = False, ledState = False, isCalibrated = True,
      currentR = 128, currentG = 128, currentB = 128, sampleCount = 5,
      atime = 56, again = 3, brightness = 128, ambientLux = 1505 / 10,
      autoZeroMode = 1, autoZeroFreq = 127, waitTime = 0,
      esp32IP = ''192.168.1.100'', clientIP = ''192.168.1.50'',
      gateway = ''192.168.1.1'', subnet = ''255.255.255.0'',
      macAddress = ''AA:BB:CC:DD:EE:FF'', rssi = - 45\<rparr>"

text \<open>
  The body of a request is a JSON object, a dictionary from field names to values. The
  values of the model are JSON integers, booleans and \<^verbatim>\<open>null\<close>: \<^verbatim>\<open>int()\<close> returns an
  integer unchanged, maps \<^verbatim>\<open>True\<close> and \<^verbatim>\<open>False\<close> to 1 and 0 and raises
  \<^verbatim>\<open>TypeError\<close> on \<^verbatim>\<open>None\<close>; \<^verbatim>\<open>bool()\<close> never raises. Numbers with a fraction,
  strings and nested values are not part of the model.
\<close>

datatype json = JInt int | JBool bool | JNull

fun py_int :: "json \<Rightarrow> int option" where
  "py_int (JInt n) = Some n"
| "py_int (JBool v) = Some (if v then 1 else 0)"
| "py_int JNull = None"

fun py_bool :: "json \<Rightarrow> bool" where
  "py_bool (JInt n) = (n \<noteq> 0)"
| "py_bool (JBool v) = v"
| "py_bool JNull = False"

subsection \<open>\<^verbatim>\<open>update_settings\<close>\<close>

text \<open>
  Each \<^verbatim>\<open>return jsonify({"error": ...}), 400\<close> of the handler is an error value: one
  per range check, carrying the rejected value as the message does, and one for the
  \<^verbatim>\<open>except Exception\<close> clause. The list \<^verbatim>\<open>updated_fields\<close> is only printed and is
  left out.
\<close>

datatype settings_error =
    Invalid_auto_zero_mode int
  | Invalid_auto_zero_frequency int
  | Invalid_wait_time int
  | Exception_caught

datatype settings_response = Settings_saved | Settings_rejected settings_error

text \<open>
  One definition per \<^verbatim>\<open>if '...' in data\<close> block, in the order of the source. A block
  either raises or returns (\<open>Inl\<close>) before it assigns, or assigns (\<open>Inr\<close>).
\<close>

definition block_autoZeroMode :: "(string \<rightharpoonup> json) \<Rightarrow> device_state \<Rightarrow> settings_error + device_state" where
  "block_autoZeroMode data st =
     (case data ''autoZeroMode'' of
        None \<Rightarrow> Inr st
      | Some v \<Rightarrow>
          (case py_int v of
             None \<Rightarrow> Inl Exception_caught
           | Some val \<Rightarrow>
               if 0 \<le> val \<and> val \<le> 1 then Inr (st\<lparr>autoZeroMode := val\<rparr>)
               else Inl (Invalid_auto_zero_mode val)))"

definition block_autoZeroFreq :: "(string \<rightharpoonup> json) \<Rightarrow> device_state \<Rightarrow> settings_error + device_state" where
  "block_autoZeroFreq data st =
     (case data ''autoZeroFreq'' of
        None \<Rightarrow> Inr st
      | Some v \<Rightarrow>
          (case py_int v of
             None \<Rightarrow> Inl Exception_caught
           | Some val \<Rightarrow>
               if 0 \<le> val \<and> val \<le> 255 then Inr (st\<lparr>autoZeroFreq := val\<rparr>)
               else Inl (Invalid_auto_zero_frequency val)))"

definition block_waitTime :: "(string \<rightharpoonup> json) \<Rightarrow> device_state \<Rightarrow> settings_error + device_state" where
  "block_waitTime data st =
     (case data ''waitTime'' of
        None \<Rightarrow> Inr st
      | Some v \<Rightarrow>
          (case py_int v of
             None \<Rightarrow> Inl Exception_caught
           | Some val \<Rightarrow>
               if 0 \<le> val \<and> val \<le> 255 then Inr (st\<lparr>waitTime := val\<rparr>)
               else Inl (Invalid_wait_time val)))"

definition block_atime :: "(string \<rightharpoonup> json) \<Rightarrow> device_state \<Rightarrow> settings_error + device_state" where
  "block_atime data st =
     (case data ''atime'' of
        None \<Rightarrow> Inr st
      | Some v \<Rightarrow>
          (case py_int v of
             None \<Rightarrow> Inl Exception_caught
           | Some val \<Rightarrow> Inr (st\<lparr>atime := val\<rparr>)))"

definition block_again :: "(string \<rightharpoonup> json) \<Rightarrow> device_state \<Rightarrow> settings_error + device_state" where
  "block_again data st =
     (case data ''again'' of
        None \<Rightarrow> Inr st
      | Some v \<Rightarrow>
          (case py_int v of
             None \<Rightarrow> Inl Exception_caught
           | Some val \<Rightarrow> Inr (st\<lparr>again := val\<rparr>)))"

definition block_brightness :: "(string \<rightharpoonup> json) \<Rightarrow> device_state \<Rightarrow> settings_error + device_state" where
  "block_brightness data st =
     (case data ''brightness'' of
        None \<Rightarrow> Inr st
      | Some v \<Rightarrow>
          (case py_int v of
             None \<Rightarrow> Inl Exception_caught
           | Some val \<Rightarrow> Inr (st\<lparr>brightness := val\<rparr>)))"

definition block_ledState :: "(string \<rightharpoonup> json) \<Rightarrow> device_state \<Rightarrow> settings_error + device_state" where
  "block_ledState data st =
     (case data ''ledState'' of
        None \<Rightarrow> Inr st
      | Some v \<Rightarrow> Inr (st\<lparr>ledState := py_bool v\<rparr>))"

text \<open>
  The handler runs the blocks one after the other. A block that fails ends the request
  with the state as the blocks before it left it.
\<close>

definition update_settings :: "device_state \<Rightarrow> (string \<rightharpoonup> json) \<Rightarrow> device_state \<times> settings_response" where
  "update_settings st0 data =
     (case block_autoZeroMode data st0 of Inl e \<Rightarrow> (st0, Settings_rejected e) | Inr st1 \<Rightarrow>
      case block_autoZeroFreq data st1 of Inl e \<Rightarrow> (st1, Settings_rejected e) | Inr st2 \<Rightarrow>
      case block_waitTime data st2 of Inl e \<Rightarrow> (st2, Settings_rejected e) | Inr st3 \<Rightarrow>
      case block_atime data st3 of Inl e \<Rightarrow> (st3, Settings_rejected e) | Inr st4 \<Rightarrow>
      case block_again data st4 of Inl e \<Rightarrow> (st4, Settings_rejected e) | Inr st5 \<Rightarrow>
      case block_brightness data st5 of Inl e \<Rightarrow> (st5, Settings_rejected e) | Inr st6 \<Rightarrow>
      case block_ledState data st6 of Inl e \<Rightarrow> (st6, Settings_rejected e) | Inr st7 \<Rightarrow>
      (st7, Settings_saved))"

text \<open>
  For stating what a request asks of one field: \<open>passes_check lo hi\<close> holds of an
  absent field and of a value that \<^verbatim>\<open>int()\<close> converts into \<open>lo..hi\<close>;
  \<open>converts\<close> holds of an absent field and of a value on which \<^verbatim>\<open>int()\<close> does not
  raise; \<open>requested x old\<close> is the converted value of a present field and the old value
  of an absent one.
\<close>

definition passes_check :: "int \<Rightarrow> int \<Rightarrow> json option \<Rightarrow> bool" where
  "passes_check lo hi x =
     (case x of
        None \<Rightarrow> True
      | Some v \<Rightarrow> (case py_int v of None \<Rightarrow> False | Some n \<Rightarrow> lo \<le> n \<and> n \<le> hi))"

definition converts :: "json option \<Rightarrow> bool" where
  "converts x = (case x of None \<Rightarrow> True | Some v \<Rightarrow> py_int v \<noteq> None)"

definition requested :: "json option \<Rightarrow> int \<Rightarrow> int" where
  "requested x old =
     (case x of None \<Rightarrow> old | Some v \<Rightarrow> (case py_int v of None \<Rightarrow> old | Some n \<Rightarrow> n))"

definition requested_bool :: "json option \<Rightarrow> bool \<Rightarrow> bool" where
  "requested_bool x old = (case x of None \<Rightarrow> old | Some v \<Rightarrow> py_bool v)"

text \<open>The handler as a run over its blocks, for the proofs.\<close>

fun run_blocks :: "(device_state \<Rightarrow> settings_error + device_state) list \<Rightarrow> device_state
    \<Rightarrow> device_state \<times> settings_response" where
  "run_blocks [] st = (st, Settings_saved)"
| "run_blocks (blk # rest) st =
     (case blk st of Inl e \<Rightarrow> (st, Settings_rejected e) | Inr st' \<Rightarrow> run_blocks rest st')"

subsection \<open>\<^verbatim>\<open>update_brightness\<close>\<close>

datatype brightness_response =
    Brightness_updated int
  | Brightness_must_be_0_255
  | Brightness_exception

definition update_brightness :: "device_state \<Rightarrow> (string \<rightharpoonup> json) \<Rightarrow> device_state \<times> brightness_response" where
  "update_brightness st data =
     (case py_int (case data ''brightness'' of None \<Rightarrow> JInt 128 | Some v \<Rightarrow> v) of
        None \<Rightarrow> (st, Brightness_exception)
      | Some val \<Rightarrow>
          if 0 \<le> val \<and> val \<le> 255 then (st\<lparr>brightness := val\<rparr>, Brightness_updated val)
          else (st, Brightness_must_be_0_255))"

section \<open>Black-level validation (test_black_calibration.py)\<close>

text \<open>
  \<^verbatim>\<open>validate_black_levels\<close> works on the answer of \<^verbatim>\<open>get_calibration_status\<close>, a
  success flag and the status dictionary, which the model takes as its argument. A
  calibration is a dictionary from channel names to readings; the two entries of the
  status may be absent (\<^verbatim>\<open>KeyError\<close>). Readings are real numbers, and so is the
  ratio: for integer sensor counts of 16 bits \<open>20 * black > 3 * white\<close> separates the
  quotient from 0.15 by far more than the rounding of a double.
\<close>

type_synonym calibration = "string \<rightharpoonup> real"

record status =
  blackCalibration :: "calibration option"
  whiteCalibration :: "calibration option"

text \<open>
  What the method passes to \<^verbatim>\<open>log_result\<close> under the name
  \<^verbatim>\<open>"Black Level Validation"\<close>: the formatted message is kept as its data, the
  channel and its ratio.
\<close>

datatype validation_log =
    Could_not_get_calibration_status
  | Channel_too_high string real
  | All_channels_within_acceptable_ranges
  | Missing_data string

text \<open>The \<^verbatim>\<open>for channel in ['x', 'y', 'z']\<close> loop: the first channel that fails.\<close>

fun check_channels :: "calibration \<Rightarrow> calibration \<Rightarrow> string list \<Rightarrow> (string \<times> real) option" where
  "check_channels black_cal white_cal [] = None"
| "check_channels black_cal white_cal (channel # rest) =
     (let black_value = (case black_cal channel of None \<Rightarrow> 0 | Some v \<Rightarrow> v);
          white_value = (case white_cal channel of None \<Rightarrow> 65535 | Some v \<Rightarrow> v);
          ratio = (if white_value > 0 then black_value / white_value else 1)
      in if ratio > 15 / 100 then Some (channel, ratio)
         else check_channels black_cal white_cal rest)"

definition validate_black_levels :: "bool \<times> status \<Rightarrow> bool \<times> validation_log" where
  "validate_black_levels answer =
     (case answer of (success, status) \<Rightarrow>
        if \<not> success then (False, Could_not_get_calibration_status)
        else (case blackCalibration status of
                None \<Rightarrow> (False, Missing_data ''blackCalibration'')
              | Some black_cal \<Rightarrow>
                  (case whiteCalibration status of
                     None \<Rightarrow> (False, Missing_data ''whiteCalibration'')
                   | Some white_cal \<Rightarrow>
                       (case check_channels black_cal white_cal [''x'', ''y'', ''z''] of
                          Some (channel, ratio) \<Rightarrow> (False, Channel_too_high channel ratio)
                        | None \<Rightarrow> (True, All_channels_within_acceptable_ranges)))))"

text \<open>
  The ratio as the specification words it: the white reading is replaced by 65535 when
  it is absent or zero. It is the yardstick the code is compared with.
\<close>

definition spec_ratio :: "calibration \<Rightarrow> calibration \<Rightarrow> string \<Rightarrow> real" where
  "spec_ratio black_cal white_cal channel =
     (case black_cal channel of None \<Rightarrow> 0 | Some v \<Rightarrow> v) /
     (case white_cal channel of None \<Rightarrow> 65535 | Some w \<Rightarrow> if w = 0 then 65535 else w)"

text \<open>
  The ratio as the code computes it, in words: an absent black reading counts as 0, an
  absent white reading as 65535, and a white reading that is not positive gives the
  ratio 1.
\<close>

definition amended_ratio :: "calibration \<Rightarrow> calibration \<Rightarrow> string \<Rightarrow> real" where
  "amended_ratio black_cal white_cal channel =
     (let black = (case black_cal channel of None \<Rightarrow> 0 | Some v \<Rightarrow> v)
      in case white_cal channel of
           None \<Rightarrow> black / 65535
         | Some w \<Rightarrow> if w > 0 then black / w else 1)"

section \<open>The brightness optimizer\<close>

text \<open>
  Modelled from the spec: the brightness optimizer of the device firmware, which is not
  among the Python sources (they only print the \<^verbatim>\<open>brightnessOptimization\<close> block of an
  enhanced scan). The model follows section 4.4 of the specification.
  \<^item> \<open>OptimizerState\<close> has the fields and the integer widths of section 3; the three
    settings carry the prefix \<open>opt_\<close>, the device state having fields of the same names.
  \<^item> The sensor port, together with the computation of the control variable from the
    reading, is a parameter: \<open>port k s\<close> is the control variable of acquisition number
    \<open>k\<close> under the setting \<open>s\<close>, or \<open>None\<close> when the read fails with \<open>SensorError\<close>,
    which is propagated. Every control-variable trajectory is such a function.
  \<^item> The adjustment of the setting, for which the specification gives bisection and a
    proportional step as examples, is a parameter as well.
  \<^item> An iteration commands the setting, acquires a reading and computes the control
    variable; it stops with success when the variable is inside the band, stops with
    \<open>in_range = False\<close> at the setting just attempted when the cap is reached, and
    otherwise adjusts the setting and repeats.
\<close>

record OptimizerState =
  opt_brightness :: "8 word"
  opt_atime :: "8 word"
  opt_again :: "8 word"
  control_variable :: real
  target_min :: real
  target_max :: real
  in_range :: bool
  iterations :: "32 word"

datatype optimizer_error = SensorError

type_synonym setting = "8 word \<times> 8 word \<times> 8 word"

definition setting_of :: "OptimizerState \<Rightarrow> setting" where
  "setting_of st = (opt_brightness st, opt_atime st, opt_again st)"

definition with_setting :: "setting \<Rightarrow> OptimizerState \<Rightarrow> OptimizerState" where
  "with_setting s st =
     (case s of (b, t, g) \<Rightarrow> st\<lparr>opt_brightness := b, opt_atime := t, opt_again := g\<rparr>)"

text \<open>
  Modelled from the spec: the iteration of section 4.4 with its hard iteration cap. The
  first test covers a cap of zero, where no setting is attempted; the test after the
  acquisition returns the setting just attempted, before any further adjustment.
\<close>

function optimize_loop ::
  "32 word \<Rightarrow> (nat \<Rightarrow> setting \<Rightarrow> real option) \<Rightarrow> (setting \<Rightarrow> real \<Rightarrow> setting)
     \<Rightarrow> OptimizerState \<Rightarrow> optimizer_error + OptimizerState" where
  "optimize_loop cap port adjust st =
     (if cap \<le> iterations st then Inr (st\<lparr>in_range := False\<rparr>)
      else (case port (unat (iterations st)) (setting_of st) of
              None \<Rightarrow> Inl SensorError
            | Some cv \<Rightarrow>
                if target_min st \<le> cv \<and> cv \<le> target_max st
                then Inr (st\<lparr>control_variable := cv, in_range := True,
                             iterations := iterations st + 1\<rparr>)
                else if cap \<le> iterations st + 1
                then Inr (st\<lparr>control_variable := cv, in_range := False,
                             iterations := iterations st + 1\<rparr>)
                else optimize_loop cap port adjust
                       (with_setting (adjust (setting_of st) cv)
                          (st\<lparr>control_variable := cv, iterations := iterations st + 1\<rparr>))))"
  by pat_completeness auto
termination
proof (relation "measure (\<lambda>(cap, port, adjust, st). unat cap - unat (iterations st))")
  show "wf (measure (\<lambda>(cap, port, adjust, st). unat cap - unat (iterations st)))"
    by simp
next
  fix cap :: "32 word" and port :: "nat \<Rightarrow> setting \<Rightarrow> real option"
    and adjust :: "setting \<Rightarrow> real \<Rightarrow> setting" and st :: OptimizerState and cv :: real
  assume "\<not> cap \<le> iterations st"
  then have less: "iterations st < cap" by simp
  then have "unat (iterations st + 1) = Suc (unat (iterations st))"
    by unat_arith
  moreover have "unat (iterations st) < unat cap"
    using less by (simp add: word_less_nat_alt)
  moreover have "iterations (with_setting s x) = iterations x" for s x
    by (simp add: with_setting_def split: prod.splits)
  ultimately show "((cap, port, adjust,
            with_setting (adjust (setting_of st) cv)
              (st\<lparr>control_variable := cv, iterations := iterations st + 1\<rparr>)),
           cap, port, adjust, st)
          \<in> measure (\<lambda>(cap, port, adjust, st). unat cap - unat (iterations st))"
    by simp
qed

text \<open>
  Modelled from the spec: the state is created at the start of an enhanced scan, from the
  current setting and the target band, with no iteration counted.
\<close>

definition optimize ::
  "32 word \<Rightarrow> (nat \<Rightarrow> setting \<Rightarrow> real option) \<Rightarrow> (setting \<Rightarrow> real \<Rightarrow> setting)
     \<Rightarrow> setting \<Rightarrow> real \<Rightarrow> real \<Rightarrow> optimizer_error + OptimizerState" where
  "optimize cap port adjust s0 tmin tmax =
     optimize_loop cap port adjust
       (with_setting s0
          \<lparr>opt_brightness = 0, opt_atime = 0, opt_again = 0, control_variable = 0,
           target_min = tmin, target_max = tmax, in_range = False, iterations = 0\<rparr>)"

section \<open>Properties of the classifier\<close>

subsection \<open>The loop keeps the first minimum\<close>

lemma closest_loop_snoc:
  "closest_loop tr tg tb (cs @ [c]) acc = loop_body tr tg tb c (closest_loop tr tg tb cs acc)"
  by (induction cs arbitrary: acc) simp_all

text \<open>
  After a non-empty catalogue the pair holds an entry of least distance, and every
  entry before it is strictly farther away. Entries are added at the end (\<open>rev_induct\<close>),
  so that the state before the last entry is the state of the shorter catalogue.
\<close>

lemma closest_loop_first_min:
  "cs \<noteq> [] \<Longrightarrow>
   \<exists>i < length cs.
      closest_loop tr tg tb cs (None, PosInf) = (Some (cs ! i), Finite (distance_to tr tg tb (cs ! i)))
    \<and> (\<forall>j < length cs. distance_to tr tg tb (cs ! i) \<le> distance_to tr tg tb (cs ! j))
    \<and> (\<forall>j < i. distance_to tr tg tb (cs ! i) < distance_to tr tg tb (cs ! j))"
proof (induction cs rule: rev_induct)
  case Nil
  then show ?case by simp
next
  case (snoc c cs)
  show ?case
  proof (cases "cs = []")
    case True
    then show ?thesis by (simp add: loop_body_def)
  next
    case False
    from snoc.IH [OF False] obtain i where i: "i < length cs"
      and res: "closest_loop tr tg tb cs (None, PosInf) = (Some (cs ! i), Finite (distance_to tr tg tb (cs ! i)))"
      and least: "\<forall>j < length cs. distance_to tr tg tb (cs ! i) \<le> distance_to tr tg tb (cs ! j)"
      and earlier: "\<forall>j < i. distance_to tr tg tb (cs ! i) < distance_to tr tg tb (cs ! j)"
      by blast
    show ?thesis
    proof (cases "distance_to tr tg tb c < distance_to tr tg tb (cs ! i)")
      case True
      have "closest_loop tr tg tb (cs @ [c]) (None, PosInf) = (Some c, Finite (distance_to tr tg tb c))"
        using True by (simp add: closest_loop_snoc res loop_body_def)
      moreover have "\<forall>j < length (cs @ [c]). distance_to tr tg tb c \<le> distance_to tr tg tb ((cs @ [c]) ! j)"
        using True least by (auto simp: nth_append less_Suc_eq intro: less_imp_le order_trans)
      moreover have "\<forall>j < length cs. distance_to tr tg tb c < distance_to tr tg tb ((cs @ [c]) ! j)"
        using True least by (auto simp: nth_append intro: less_le_trans)
      ultimately show ?thesis
        by (intro exI [of _ "length cs"]) simp
    next
      case False
      have "closest_loop tr tg tb (cs @ [c]) (None, PosInf) = (Some (cs ! i), Finite (distance_to tr tg tb (cs ! i)))"
        using False by (simp add: closest_loop_snoc res loop_body_def)
      moreover have "\<forall>j < length (cs @ [c]). distance_to tr tg tb (cs ! i) \<le> distance_to tr tg tb ((cs @ [c]) ! j)"
        using False least by (auto simp: nth_append less_Suc_eq)
      moreover have "\<forall>j < i. distance_to tr tg tb (cs ! i) < distance_to tr tg tb ((cs @ [c]) ! j)"
        using earlier i by (auto simp: nth_append)
      ultimately show ?thesis
        using i by (intro exI [of _ i]) (simp add: nth_append)
    qed
  qed
qed

lemma DULUX_COLORS_not_empty: "DULUX_COLORS \<noteq> []"
  by (simp add: DULUX_COLORS_def)

text \<open>
  C1. For every RGB input and every non-empty catalogue, \<open>find_closest_color\<close> returns
  an entry of the catalogue whose Euclidean distance
  \<open>sqrt ((r1 - r2)\<^sup>2 + (g1 - g2)\<^sup>2 + (b1 - b2)\<^sup>2)\<close> to the input is least, together with
  that distance; among the entries of least distance it returns the first one in the
  order of the catalogue, every earlier entry being strictly farther away.
\<close>

theorem find_closest_color_first_minimum:
  assumes "catalog \<noteq> []"
  shows "\<exists>i < length catalog.
      find_closest_color catalog r g b
        = (Some (catalog ! i),
           Finite (sqrt (real_of_int ((r - col_r (catalog ! i))\<^sup>2 + (g - col_g (catalog ! i))\<^sup>2
                                        + (b - col_b (catalog ! i))\<^sup>2))))
    \<and> (\<forall>j < length catalog. distance_to r g b (catalog ! i) \<le> distance_to r g b (catalog ! j))
    \<and> (\<forall>j < i. distance_to r g b (catalog ! i) < distance_to r g b (catalog ! j))"
  using closest_loop_first_min [OF assms, of r g b]
  by (simp add: find_closest_color_def calculate_color_distance_def)

theorem find_closest_color_first_minimum_witness:
  "DULUX_COLORS \<noteq> [] \<and>
   (\<exists>i < length DULUX_COLORS.
      find_closest_color DULUX_COLORS 250 252 255
        = (Some (DULUX_COLORS ! i),
           Finite (sqrt (real_of_int ((250 - col_r (DULUX_COLORS ! i))\<^sup>2
                                        + (252 - col_g (DULUX_COLORS ! i))\<^sup>2
                                        + (255 - col_b (DULUX_COLORS ! i))\<^sup>2))))
    \<and> (\<forall>j < length DULUX_COLORS.
          distance_to 250 252 255 (DULUX_COLORS ! i) \<le> distance_to 250 252 255 (DULUX_COLORS ! j))
    \<and> (\<forall>j < i. distance_to 250 252 255 (DULUX_COLORS ! i) < distance_to 250 252 255 (DULUX_COLORS ! j)))"
  using DULUX_COLORS_not_empty
    find_closest_color_first_minimum [OF DULUX_COLORS_not_empty, of 250 252 255]
  by blast

subsection \<open>The scenario of the specification\<close>

lemma sqrt_34_lower: "583 / 100 < sqrt 34"
  by (rule real_less_rsqrt) (simp add: power2_eq_square)

lemma sqrt_34_upper: "sqrt 34 < 5835 / 1000"
  by (rule real_less_lsqrt) (simp_all add: power2_eq_square)

lemma floor_sqrt_34: "\<lfloor>sqrt 34 * 100\<rfloor> = 583"
proof -
  have "583 \<le> sqrt 34 * 100" using sqrt_34_lower by simp
  moreover have "sqrt 34 * 100 < 584" using sqrt_34_upper by simp
  ultimately show ?thesis by (simp add: floor_eq_iff)
qed

lemma round2_sqrt_34: "round2 (sqrt 34) = 583 / 100"
proof -
  have "sqrt 34 * 100 - 583 < 1 / 2" using sqrt_34_upper by simp
  then show ?thesis by (simp add: round2_def floor_sqrt_34 Let_def)
qed

text \<open>
  C7. On the catalogue of the server, which contains Vivid White (255, 255, 255) and
  Cruel Sea (33, 26, 27), the input (250, 252, 255) is matched to Vivid White at distance
  \<open>sqrt 34\<close>, which is 5.83 to two decimals and is reported as 5.83 by the handler, and
  the input (30, 25, 30) is matched to Cruel Sea. The same holds on the catalogue of
  these two entries alone.
\<close>

theorem vivid_white_and_cruel_sea_scenario:
  "find_closest_color DULUX_COLORS 250 252 255
     = (Some \<lparr>col_name = ''Vivid White'', col_code = ''W01A1'',
               col_r = 255, col_g = 255, col_b = 255, col_lrv = 90\<rparr>, Finite (sqrt 34))
   \<and> \<bar>sqrt 34 - 583 / 100\<bar> < 5 / 1000
   \<and> color_match DULUX_COLORS (IntText 250) (IntText 252) (IntText 255)
     = Match_found \<lparr>col_name = ''Vivid White'', col_code = ''W01A1'',
                     col_r = 255, col_g = 255, col_b = 255, col_lrv = 90\<rparr>
         (Finite (583 / 100)) (250, 252, 255)
   \<and> fst (find_closest_color DULUX_COLORS 30 25 30)
     = Some \<lparr>col_name = ''Cruel Sea'', col_code = ''P29A9'',
              col_r = 33, col_g = 26, col_b = 27, col_lrv = 55 / 10\<rparr>
   \<and> find_closest_color [DULUX_COLORS ! 0, DULUX_COLORS ! 3] 250 252 255
     = (Some (DULUX_COLORS ! 0), Finite (sqrt 34))
   \<and> fst (find_closest_color [DULUX_COLORS ! 0, DULUX_COLORS ! 3] 30 25 30)
     = Some (DULUX_COLORS ! 3)"
proof -
  have 1: "find_closest_color DULUX_COLORS 250 252 255
     = (Some \<lparr>col_name = ''Vivid White'', col_code = ''W01A1'',
               col_r = 255, col_g = 255, col_b = 255, col_lrv = 90\<rparr>, Finite (sqrt 34))"
    by (simp add: find_closest_color_def DULUX_COLORS_def loop_body_def
        calculate_color_distance_def)
  have 2: "\<bar>sqrt 34 - 583 / 100\<bar> < 5 / 1000"
    using sqrt_34_lower sqrt_34_upper by simp
  have 3: "color_match DULUX_COLORS (IntText 250) (IntText 252) (IntText 255)
     = Match_found \<lparr>col_name = ''Vivid White'', col_code = ''W01A1'',
                     col_r = 255, col_g = 255, col_b = 255, col_lrv = 90\<rparr>
         (Finite (583 / 100)) (250, 252, 255)"
    by (simp add: color_match_def 1 round2_sqrt_34)
  have 4: "fst (find_closest_color DULUX_COLORS 30 25 30)
     = Some \<lparr>col_name = ''Cruel Sea'', col_code = ''P29A9'',
              col_r = 33, col_g = 26, col_b = 27, col_lrv = 55 / 10\<rparr>"
    by (simp add: find_closest_color_def DULUX_COLORS_def loop_body_def
        calculate_color_distance_def)
  have 5: "find_closest_color [DULUX_COLORS ! 0, DULUX_COLORS ! 3] 250 252 255
     = (Some (DULUX_COLORS ! 0), Finite (sqrt 34))"
    by (simp add: find_closest_color_def DULUX_COLORS_def loop_body_def
        calculate_color_distance_def)
  have 6: "fst (find_closest_color [DULUX_COLORS ! 0, DULUX_COLORS ! 3] 30 25 30)
     = Some (DULUX_COLORS ! 3)"
    by (simp add: find_closest_color_def DULUX_COLORS_def loop_body_def
        calculate_color_distance_def)
  from 1 2 3 4 5 6 show ?thesis by blast
qed

subsection \<open>Empty catalogue, exact matches\<close>

lemma find_closest_color_empty: "find_closest_color [] r g b = (None, PosInf)"
  by (simp add: find_closest_color_def)

lemma find_closest_color_nonempty:
  assumes "catalog \<noteq> []"
  shows "\<exists>m \<in> set catalog. \<exists>d. find_closest_color catalog r g b = (Some m, Finite d)"
proof -
  from closest_loop_first_min [OF assms, of r g b] obtain i where "i < length catalog"
    and "closest_loop r g b catalog (None, PosInf)
           = (Some (catalog ! i), Finite (distance_to r g b (catalog ! i)))"
    by blast
  then show ?thesis
    unfolding find_closest_color_def using nth_mem by blast
qed

lemma distance_nonnegative: "0 \<le> calculate_color_distance r1 g1 b1 r2 g2 b2"
  by (simp add: calculate_color_distance_def)

lemma distance_zero_iff:
  "calculate_color_distance r1 g1 b1 r2 g2 b2 = 0 \<longleftrightarrow> r1 = r2 \<and> g1 = g2 \<and> b1 = b2"
proof -
  have "(r1 - r2)\<^sup>2 + (g1 - g2)\<^sup>2 + (b1 - b2)\<^sup>2 = 0 \<longleftrightarrow> r1 = r2 \<and> g1 = g2 \<and> b1 = b2"
  proof
    assume z: "(r1 - r2)\<^sup>2 + (g1 - g2)\<^sup>2 + (b1 - b2)\<^sup>2 = 0"
    have "0 \<le> (r1 - r2)\<^sup>2" "0 \<le> (g1 - g2)\<^sup>2" "0 \<le> (b1 - b2)\<^sup>2" by simp_all
    with z have "(r1 - r2)\<^sup>2 = 0" "(g1 - g2)\<^sup>2 = 0" "(b1 - b2)\<^sup>2 = 0" by linarith+
    then show "r1 = r2 \<and> g1 = g2 \<and> b1 = b2" by simp
  qed simp
  moreover have "calculate_color_distance r1 g1 b1 r2 g2 b2 = 0
      \<longleftrightarrow> (r1 - r2)\<^sup>2 + (g1 - g2)\<^sup>2 + (b1 - b2)\<^sup>2 = 0"
    unfolding calculate_color_distance_def real_sqrt_eq_0_iff of_int_eq_0_iff ..
  ultimately show ?thesis by simp
qed

text \<open>
  An input equal to the RGB of an entry is matched at distance 0 to the first entry
  with that RGB.
\<close>

lemma exact_match:
  assumes "c \<in> set catalog"
  shows "\<exists>i < length catalog.
           find_closest_color catalog (col_r c) (col_g c) (col_b c) = (Some (catalog ! i), Finite 0)
         \<and> rgb_of (catalog ! i) = rgb_of c"
proof -
  have ne: "catalog \<noteq> []" using assms by auto
  from closest_loop_first_min [OF ne, of "col_r c" "col_g c" "col_b c"] obtain i
    where i: "i < length catalog"
      and res: "closest_loop (col_r c) (col_g c) (col_b c) catalog (None, PosInf)
                  = (Some (catalog ! i),
                     Finite (distance_to (col_r c) (col_g c) (col_b c) (catalog ! i)))"
      and least: "\<forall>j < length catalog.
                    distance_to (col_r c) (col_g c) (col_b c) (catalog ! i)
                      \<le> distance_to (col_r c) (col_g c) (col_b c) (catalog ! j)"
    by blast
  from assms obtain k where k: "k < length catalog" "catalog ! k = c"
    by (auto simp: in_set_conv_nth)
  have "distance_to (col_r c) (col_g c) (col_b c) c = 0"
    by (simp add: distance_zero_iff)
  with least k have "distance_to (col_r c) (col_g c) (col_b c) (catalog ! i) \<le> 0"
    by metis
  then have zero: "distance_to (col_r c) (col_g c) (col_b c) (catalog ! i) = 0"
    using distance_nonnegative [of "col_r c" "col_g c" "col_b c"] by (simp add: order_antisym)
  then have "rgb_of (catalog ! i) = rgb_of c"
    by (simp add: distance_zero_iff)
  with i res zero show ?thesis
    by (auto simp: find_closest_color_def)
qed

lemma exact_match_distinct:
  assumes "c \<in> set catalog" and "distinct (map rgb_of catalog)"
  shows "find_closest_color catalog (col_r c) (col_g c) (col_b c) = (Some c, Finite 0)"
proof -
  from exact_match [OF assms(1)] obtain i where i: "i < length catalog"
    and res: "find_closest_color catalog (col_r c) (col_g c) (col_b c)
                = (Some (catalog ! i), Finite 0)"
    and same: "rgb_of (catalog ! i) = rgb_of c"
    by blast
  have "inj_on rgb_of (set catalog)"
    using assms(2) by (simp add: distinct_map)
  moreover have "catalog ! i \<in> set catalog" using i by simp
  ultimately have "catalog ! i = c"
    using same assms(1) by (auto dest: inj_onD)
  with res show ?thesis by simp
qed

lemma DULUX_COLORS_distinct_rgb: "distinct (map rgb_of DULUX_COLORS)"
  by (simp add: DULUX_COLORS_def)

text \<open>
  C6. The classifier fails for want of a match exactly when the catalogue is empty:
  \<open>find_closest_color\<close> returns no entry if and only if the catalogue is empty, and for
  channel values in 0..255 the handler answers "No color match found" if and only if the
  catalogue is empty; on a non-empty catalogue it always answers with a match, an entry
  of the catalogue.
\<close>

theorem classifier_fails_iff_catalog_empty:
  "(fst (find_closest_color catalog r g b) = None \<longleftrightarrow> catalog = [])
   \<and> (0 \<le> r \<and> r \<le> 255 \<and> 0 \<le> g \<and> g \<le> 255 \<and> 0 \<le> b \<and> b \<le> 255 \<longrightarrow>
        (color_match catalog (IntText r) (IntText g) (IntText b) = No_color_match_found
           \<longleftrightarrow> catalog = [])
      \<and> (catalog \<noteq> [] \<longrightarrow>
           (\<exists>m \<in> set catalog. \<exists>d.
              color_match catalog (IntText r) (IntText g) (IntText b)
                = Match_found m (Finite d) (r, g, b))))"
proof (cases "catalog = []")
  case True
  then show ?thesis
    by (simp add: find_closest_color_empty color_match_def)
next
  case False
  from find_closest_color_nonempty [OF False, of r g b] obtain m d
    where m: "m \<in> set catalog" and res: "find_closest_color catalog r g b = (Some m, Finite d)"
    by blast
  have "fst (find_closest_color catalog r g b) \<noteq> None" using res by simp
  moreover have "color_match catalog (IntText r) (IntText g) (IntText b)
        = Match_found m (Finite (round2 d)) (r, g, b)"
    if "0 \<le> r \<and> r \<le> 255 \<and> 0 \<le> g \<and> g \<le> 255 \<and> 0 \<le> b \<and> b \<le> 255"
    using that res by (simp add: color_match_def)
  ultimately show ?thesis using False m by auto
qed

theorem classifier_fails_iff_catalog_empty_witness:
  "(0::int) \<le> 30 \<and> (30::int) \<le> 255 \<and> (0::int) \<le> 25 \<and> (25::int) \<le> 255
   \<and> DULUX_COLORS \<noteq> []
   \<and> fst (find_closest_color DULUX_COLORS 30 25 30) \<noteq> None
   \<and> color_match DULUX_COLORS (IntText 30) (IntText 25) (IntText 30) \<noteq> No_color_match_found
   \<and> (\<exists>m \<in> set DULUX_COLORS. \<exists>d.
         color_match DULUX_COLORS (IntText 30) (IntText 25) (IntText 30)
           = Match_found m (Finite d) (30, 25, 30))
   \<and> color_match [] (IntText 30) (IntText 25) (IntText 30) = No_color_match_found"
  using classifier_fails_iff_catalog_empty [of DULUX_COLORS 30 25 30]
    classifier_fails_iff_catalog_empty [of "[]" 30 25 30] DULUX_COLORS_not_empty
  by simp

text \<open>
  C8. Classification is a function of the catalogue and the input: two invocations on
  the same catalogue and the same RGB return the same match and the same distance. For an
  input equal to the RGB of an entry of the server's catalogue, that entry is returned at
  distance 0; so it is on every catalogue whose entries have pairwise different RGB, and
  on any catalogue the entry returned at distance 0 has the RGB of the input.
\<close>

theorem classification_deterministic_and_exact:
  "(\<forall>x y. x = find_closest_color catalog r g b \<and> y = find_closest_color catalog r g b \<longrightarrow> x = y)
   \<and> (\<forall>c \<in> set DULUX_COLORS.
        find_closest_color DULUX_COLORS (col_r c) (col_g c) (col_b c) = (Some c, Finite 0))
   \<and> (\<forall>c \<in> set catalog. distinct (map rgb_of catalog) \<longrightarrow>
        find_closest_color catalog (col_r c) (col_g c) (col_b c) = (Some c, Finite 0))
   \<and> (\<forall>c \<in> set catalog. \<exists>c' \<in> set catalog. rgb_of c' = rgb_of c
        \<and> find_closest_color catalog (col_r c) (col_g c) (col_b c) = (Some c', Finite 0))"
proof -
  have "\<exists>c' \<in> set catalog. rgb_of c' = rgb_of c
        \<and> find_closest_color catalog (col_r c) (col_g c) (col_b c) = (Some c', Finite 0)"
    if "c \<in> set catalog" for c
    using exact_match [OF that] nth_mem by blast
  then show ?thesis
    using exact_match_distinct DULUX_COLORS_distinct_rgb by blast
qed

theorem classification_deterministic_and_exact_witness:
  "\<lparr>col_name = ''Cruel Sea'', col_code = ''P29A9'',
     col_r = 33, col_g = 26, col_b = 27, col_lrv = 55 / 10\<rparr> \<in> set DULUX_COLORS
   \<and> distinct (map rgb_of DULUX_COLORS)
   \<and> find_closest_color DULUX_COLORS 33 26 27
       = (Some \<lparr>col_name = ''Cruel Sea'', col_code = ''P29A9'',
                 col_r = 33, col_g = 26, col_b = 27, col_lrv = 55 / 10\<rparr>, Finite 0)"
proof -
  have mem: "\<lparr>col_name = ''Cruel Sea'', col_code = ''P29A9'',
     col_r = 33, col_g = 26, col_b = 27, col_lrv = 55 / 10\<rparr> \<in> set DULUX_COLORS"
    by (simp add: DULUX_COLORS_def)
  show ?thesis
    using mem DULUX_COLORS_distinct_rgb
      classification_deterministic_and_exact [of DULUX_COLORS 33 26 27]
    by fastforce
qed

section \<open>Properties of the settings handler\<close>

subsection \<open>What one block does\<close>

lemma record_same_autoZeroMode: "st\<lparr>autoZeroMode := autoZeroMode st\<rparr> = st"
  by simp

lemma passes_autoZeroMode:
  assumes "passes_check 0 1 (data ''autoZeroMode'')"
  shows "block_autoZeroMode data st
           = Inr (st\<lparr>autoZeroMode := requested (data ''autoZeroMode'') (autoZeroMode st)\<rparr>)"
proof (cases "data ''autoZeroMode''")
  case None
  then show ?thesis by (simp add: block_autoZeroMode_def requested_def)
next
  case (Some v)
  with assms obtain n where "py_int v = Some n" "0 \<le> n" "n \<le> 1"
    by (auto simp: passes_check_def split: option.splits)
  with Some show ?thesis by (simp add: block_autoZeroMode_def requested_def)
qed

lemma passes_autoZeroFreq:
  assumes "passes_check 0 255 (data ''autoZeroFreq'')"
  shows "block_autoZeroFreq data st
           = Inr (st\<lparr>autoZeroFreq := requested (data ''autoZeroFreq'') (autoZeroFreq st)\<rparr>)"
proof (cases "data ''autoZeroFreq''")
  case None
  then show ?thesis by (simp add: block_autoZeroFreq_def requested_def)
next
  case (Some v)
  with assms obtain n where "py_int v = Some n" "0 \<le> n" "n \<le> 255"
    by (auto simp: passes_check_def split: option.splits)
  with Some show ?thesis by (simp add: block_autoZeroFreq_def requested_def)
qed

lemma passes_waitTime:
  assumes "passes_check 0 255 (data ''waitTime'')"
  shows "block_waitTime data st
           = Inr (st\<lparr>waitTime := requested (data ''waitTime'') (waitTime st)\<rparr>)"
proof (cases "data ''waitTime''")
  case None
  then show ?thesis by (simp add: block_waitTime_def requested_def)
next
  case (Some v)
  with assms obtain n where "py_int v = Some n" "0 \<le> n" "n \<le> 255"
    by (auto simp: passes_check_def split: option.splits)
  with Some show ?thesis by (simp add: block_waitTime_def requested_def)
qed

lemma converts_atime:
  assumes "converts (data ''atime'')"
  shows "block_atime data st = Inr (st\<lparr>atime := requested (data ''atime'') (atime st)\<rparr>)"
proof (cases "data ''atime''")
  case None
  then show ?thesis by (simp add: block_atime_def requested_def)
next
  case (Some v)
  with assms obtain n where "py_int v = Some n"
    by (auto simp: converts_def)
  with Some show ?thesis by (simp add: block_atime_def requested_def)
qed

lemma converts_again:
  assumes "converts (data ''again'')"
  shows "block_again data st = Inr (st\<lparr>again := requested (data ''again'') (again st)\<rparr>)"
proof (cases "data ''again''")
  case None
  then show ?thesis by (simp add: block_again_def requested_def)
next
  case (Some v)
  with assms obtain n where "py_int v = Some n"
    by (auto simp: converts_def)
  with Some show ?thesis by (simp add: block_again_def requested_def)
qed

lemma converts_brightness:
  assumes "converts (data ''brightness'')"
  shows "block_brightness data st
           = Inr (st\<lparr>brightness := requested (data ''brightness'') (brightness st)\<rparr>)"
proof (cases "data ''brightness''")
  case None
  then show ?thesis by (simp add: block_brightness_def requested_def)
next
  case (Some v)
  with assms obtain n where "py_int v = Some n"
    by (auto simp: converts_def)
  with Some show ?thesis by (simp add: block_brightness_def requested_def)
qed

lemma total_ledState:
  "block_ledState data st
     = Inr (st\<lparr>ledState := requested_bool (data ''ledState'') (ledState st)\<rparr>)"
  by (cases "data ''ledState''") (simp_all add: block_ledState_def requested_bool_def)

lemma mode_rejected_block:
  assumes "data ''autoZeroMode'' = Some (JInt v)" and "\<not> (0 \<le> v \<and> v \<le> 1)"
  shows "block_autoZeroMode data st = Inl (Invalid_auto_zero_mode v)"
  using assms by (auto simp: block_autoZeroMode_def)

lemma freq_rejected_block:
  assumes "data ''autoZeroFreq'' = Some (JInt v)" and "\<not> (0 \<le> v \<and> v \<le> 255)"
  shows "block_autoZeroFreq data st = Inl (Invalid_auto_zero_frequency v)"
  using assms by (auto simp: block_autoZeroFreq_def)

lemma wait_rejected_block:
  assumes "data ''waitTime'' = Some (JInt v)" and "\<not> (0 \<le> v \<and> v \<le> 255)"
  shows "block_waitTime data st = Inl (Invalid_wait_time v)"
  using assms by (auto simp: block_waitTime_def)

text \<open>A block that returns normally has changed its own field at most.\<close>

lemma block_autoZeroMode_Inr:
  assumes "block_autoZeroMode data st = Inr st'"
  shows "st' = st\<lparr>autoZeroMode := autoZeroMode st'\<rparr>"
  using assms by (auto simp: block_autoZeroMode_def split: option.splits if_splits)

lemma block_autoZeroFreq_Inr:
  assumes "block_autoZeroFreq data st = Inr st'"
  shows "st' = st\<lparr>autoZeroFreq := autoZeroFreq st'\<rparr>"
  using assms by (auto simp: block_autoZeroFreq_def split: option.splits if_splits)

lemma block_waitTime_Inr:
  assumes "block_waitTime data st = Inr st'"
  shows "st' = st\<lparr>waitTime := waitTime st'\<rparr>"
  using assms by (auto simp: block_waitTime_def split: option.splits if_splits)

lemma block_atime_Inr:
  assumes "block_atime data st = Inr st'"
  shows "st' = st\<lparr>atime := atime st'\<rparr>"
  using assms by (auto simp: block_atime_def split: option.splits if_splits)

lemma block_again_Inr:
  assumes "block_again data st = Inr st'"
  shows "st' = st\<lparr>again := again st'\<rparr>"
  using assms by (auto simp: block_again_def split: option.splits if_splits)

lemma block_brightness_Inr:
  assumes "block_brightness data st = Inr st'"
  shows "st' = st\<lparr>brightness := brightness st'\<rparr>"
  using assms by (auto simp: block_brightness_def split: option.splits if_splits)

lemma block_ledState_Inr:
  assumes "block_ledState data st = Inr st'"
  shows "st' = st\<lparr>ledState := ledState st'\<rparr>"
  using assms by (auto simp: block_ledState_def split: option.splits if_splits)

subsection \<open>The handler as a run over its blocks\<close>

lemma update_settings_run_blocks:
  "update_settings st data =
     run_blocks [block_autoZeroMode data, block_autoZeroFreq data, block_waitTime data,
                 block_atime data, block_again data, block_brightness data,
                 block_ledState data] st"
  by (simp add: update_settings_def split: sum.splits)

text \<open>A field that no block of a run changes has its old value after the run.\<close>

lemma run_blocks_keeps:
  assumes "\<And>blk s s'. blk \<in> set bs \<Longrightarrow> blk s = Inr s' \<Longrightarrow> f s' = f s"
  shows "f (fst (run_blocks bs st)) = f st"
  using assms
proof (induction bs arbitrary: st)
  case Nil
  then show ?case by simp
next
  case (Cons blk bs)
  show ?case
  proof (cases "blk st")
    case (Inl e)
    then show ?thesis by simp
  next
    case (Inr st')
    have "f (fst (run_blocks bs st')) = f st'"
    proof (rule Cons.IH)
      fix blk' s s'
      assume "blk' \<in> set bs" "blk' s = Inr s'"
      then show "f s' = f s" using Cons.prems [of blk' s s'] by simp
    qed
    moreover have "f st' = f st"
      using Cons.prems [of blk st st'] Inr by simp
    ultimately show ?thesis using Inr by simp
  qed
qed

text \<open>Each block leaves the settings of the other blocks as they are.\<close>

lemma block_autoZeroMode_others:
  assumes "block_autoZeroMode data st = Inr st'"
  shows "autoZeroFreq st' = autoZeroFreq st
       \<and> waitTime st' = waitTime st
       \<and> atime st' = atime st
       \<and> again st' = again st
       \<and> brightness st' = brightness st
       \<and> ledState st' = ledState st"
  using assms by (auto simp: block_autoZeroMode_def split: option.splits if_splits)

lemma block_autoZeroFreq_others:
  assumes "block_autoZeroFreq data st = Inr st'"
  shows "autoZeroMode st' = autoZeroMode st
       \<and> waitTime st' = waitTime st
       \<and> atime st' = atime st
       \<and> again st' = again st
       \<and> brightness st' = brightness st
       \<and> ledState st' = ledState st"
  using assms by (auto simp: block_autoZeroFreq_def split: option.splits if_splits)

lemma block_waitTime_others:
  assumes "block_waitTime data st = Inr st'"
  shows "autoZeroMode st' = autoZeroMode st
       \<and> autoZeroFreq st' = autoZeroFreq st
       \<and> atime st' = atime st
       \<and> again st' = again st
       \<and> brightness st' = brightness st
       \<and> ledState st' = ledState st"
  using assms by (auto simp: block_waitTime_def split: option.splits if_splits)

lemma block_atime_others:
  assumes "block_atime data st = Inr st'"
  shows "autoZeroMode st' = autoZeroMode st
       \<and> autoZeroFreq st' = autoZeroFreq st
       \<and> waitTime st' = waitTime st
       \<and> again st' = again st
       \<and> brightness st' = brightness st
       \<and> ledState st' = ledState st"
  using assms by (auto simp: block_atime_def split: option.splits if_splits)

lemma block_again_others:
  assumes "block_again data st = Inr st'"
  shows "autoZeroMode st' = autoZeroMode st
       \<and> autoZeroFreq st' = autoZeroFreq st
       \<and> waitTime st' = waitTime st
       \<and> atime st' = atime st
       \<and> brightness st' = brightness st
       \<and> ledState st' = ledState st"
  using assms by (auto simp: block_again_def split: option.splits if_splits)

lemma block_brightness_others:
  assumes "block_brightness data st = Inr st'"
  shows "autoZeroMode st' = autoZeroMode st
       \<and> autoZeroFreq st' = autoZeroFreq st
       \<and> waitTime st' = waitTime st
       \<and> atime st' = atime st
       \<and> again st' = again st
       \<and> ledState st' = ledState st"
  using assms by (auto simp: block_brightness_def split: option.splits if_splits)

lemma block_ledState_others:
  assumes "block_ledState data st = Inr st'"
  shows "autoZeroMode st' = autoZeroMode st
       \<and> autoZeroFreq st' = autoZeroFreq st
       \<and> waitTime st' = waitTime st
       \<and> atime st' = atime st
       \<and> again st' = again st
       \<and> brightness st' = brightness st"
  using assms by (auto simp: block_ledState_def split: option.splits if_splits)

lemma later_blocks_keep_autoZeroMode:
  "autoZeroMode (fst (run_blocks [block_autoZeroFreq data, block_waitTime data, block_atime data, block_again data, block_brightness data, block_ledState data] st)) = autoZeroMode st"
  by (rule run_blocks_keeps) (auto dest: block_autoZeroFreq_others block_waitTime_others block_atime_others block_again_others block_brightness_others block_ledState_others)

lemma later_blocks_keep_autoZeroFreq:
  "autoZeroFreq (fst (run_blocks [block_waitTime data, block_atime data, block_again data, block_brightness data, block_ledState data] st)) = autoZeroFreq st"
  by (rule run_blocks_keeps) (auto dest: block_waitTime_others block_atime_others block_again_others block_brightness_others block_ledState_others)

lemma later_blocks_keep_waitTime:
  "waitTime (fst (run_blocks [block_atime data, block_again data, block_brightness data, block_ledState data] st)) = waitTime st"
  by (rule run_blocks_keeps) (auto dest: block_atime_others block_again_others block_brightness_others block_ledState_others)

subsection \<open>Where a request ends\<close>

lemma rejected_at_autoZeroMode:
  assumes "data ''autoZeroMode'' = Some (JInt v)" and "\<not> (0 \<le> v \<and> v \<le> 1)"
  shows "update_settings st data = (st, Settings_rejected (Invalid_auto_zero_mode v))"
  using mode_rejected_block [of data v st] assms by (simp add: update_settings_def)

lemma rejected_at_autoZeroFreq:
  assumes "passes_check 0 1 (data ''autoZeroMode'')"
    and "data ''autoZeroFreq'' = Some (JInt v)" and "\<not> (0 \<le> v \<and> v \<le> 255)"
  shows "update_settings st data
           = (st\<lparr>autoZeroMode := requested (data ''autoZeroMode'') (autoZeroMode st)\<rparr>,
              Settings_rejected (Invalid_auto_zero_frequency v))"
proof -
  have "block_autoZeroFreq data
          (st\<lparr>autoZeroMode := requested (data ''autoZeroMode'') (autoZeroMode st)\<rparr>)
        = Inl (Invalid_auto_zero_frequency v)"
    using assms(2,3) by (rule freq_rejected_block)
  then show ?thesis
    using passes_autoZeroMode [of data st] assms(1) by (simp add: update_settings_def)
qed

lemma rejected_at_waitTime:
  assumes "passes_check 0 1 (data ''autoZeroMode'')"
    and "passes_check 0 255 (data ''autoZeroFreq'')"
    and "data ''waitTime'' = Some (JInt v)" and "\<not> (0 \<le> v \<and> v \<le> 255)"
  shows "update_settings st data
           = (st\<lparr>autoZeroMode := requested (data ''autoZeroMode'') (autoZeroMode st),
                  autoZeroFreq := requested (data ''autoZeroFreq'') (autoZeroFreq st)\<rparr>,
              Settings_rejected (Invalid_wait_time v))"
proof -
  have "block_waitTime data
          (st\<lparr>autoZeroMode := requested (data ''autoZeroMode'') (autoZeroMode st),
               autoZeroFreq := requested (data ''autoZeroFreq'') (autoZeroFreq st)\<rparr>)
        = Inl (Invalid_wait_time v)"
    using assms(3,4) by (rule wait_rejected_block)
  moreover have "block_autoZeroFreq data
          (st\<lparr>autoZeroMode := requested (data ''autoZeroMode'') (autoZeroMode st)\<rparr>)
        = Inr (st\<lparr>autoZeroMode := requested (data ''autoZeroMode'') (autoZeroMode st),
                    autoZeroFreq := requested (data ''autoZeroFreq'') (autoZeroFreq st)\<rparr>)"
    using passes_autoZeroFreq [of data
        "st\<lparr>autoZeroMode := requested (data ''autoZeroMode'') (autoZeroMode st)\<rparr>"] assms(2)
    by simp
  ultimately show ?thesis
    using passes_autoZeroMode [of data st] assms(1) by (simp add: update_settings_def)
qed

lemma all_blocks_pass:
  assumes "passes_check 0 1 (data ''autoZeroMode'')"
    and "passes_check 0 255 (data ''autoZeroFreq'')"
    and "passes_check 0 255 (data ''waitTime'')"
    and "converts (data ''atime'')" and "converts (data ''again'')"
    and "converts (data ''brightness'')"
  shows "update_settings st data
           = (st\<lparr>autoZeroMode := requested (data ''autoZeroMode'') (autoZeroMode st),
                  autoZeroFreq := requested (data ''autoZeroFreq'') (autoZeroFreq st),
                  waitTime := requested (data ''waitTime'') (waitTime st),
                  atime := requested (data ''atime'') (atime st),
                  again := requested (data ''again'') (again st),
                  brightness := requested (data ''brightness'') (brightness st),
                  ledState := requested_bool (data ''ledState'') (ledState st)\<rparr>,
              Settings_saved)"
proof -
  define s1 where "s1 = st\<lparr>autoZeroMode := requested (data ''autoZeroMode'') (autoZeroMode st)\<rparr>"
  define s2 where "s2 = s1\<lparr>autoZeroFreq := requested (data ''autoZeroFreq'') (autoZeroFreq st)\<rparr>"
  define s3 where "s3 = s2\<lparr>waitTime := requested (data ''waitTime'') (waitTime st)\<rparr>"
  define s4 where "s4 = s3\<lparr>atime := requested (data ''atime'') (atime st)\<rparr>"
  define s5 where "s5 = s4\<lparr>again := requested (data ''again'') (again st)\<rparr>"
  define s6 where "s6 = s5\<lparr>brightness := requested (data ''brightness'') (brightness st)\<rparr>"
  define s7 where "s7 = s6\<lparr>ledState := requested_bool (data ''ledState'') (ledState st)\<rparr>"
  have b1: "block_autoZeroMode data st = Inr s1"
    using passes_autoZeroMode [of data st] assms(1) by (simp add: s1_def)
  have b2: "block_autoZeroFreq data s1 = Inr s2"
    using passes_autoZeroFreq [of data s1] assms(2) by (simp add: s2_def s1_def)
  have b3: "block_waitTime data s2 = Inr s3"
    using passes_waitTime [of data s2] assms(3) by (simp add: s3_def s2_def s1_def)
  have b4: "block_atime data s3 = Inr s4"
    using converts_atime [of data s3] assms(4) by (simp add: s4_def s3_def s2_def s1_def)
  have b5: "block_again data s4 = Inr s5"
    using converts_again [of data s4] assms(5)
    by (simp add: s5_def s4_def s3_def s2_def s1_def)
  have b6: "block_brightness data s5 = Inr s6"
    using converts_brightness [of data s5] assms(6)
    by (simp add: s6_def s5_def s4_def s3_def s2_def s1_def)
  have b7: "block_ledState data s6 = Inr s7"
    using total_ledState [of data s6]
    by (simp add: s7_def s6_def s5_def s4_def s3_def s2_def s1_def)
  have "update_settings st data = (s7, Settings_saved)"
    by (simp add: update_settings_def b1 b2 b3 b4 b5 b6 b7)
  then show ?thesis
    by (simp add: s7_def s6_def s5_def s4_def s3_def s2_def s1_def)
qed

lemma requested_JInt: "requested (Some (JInt n)) old = n"
  by (simp add: requested_def)

lemma passes_check_None: "passes_check lo hi None"
  by (simp add: passes_check_def)

lemma passes_check_JInt: "passes_check lo hi (Some (JInt n)) \<longleftrightarrow> lo \<le> n \<and> n \<le> hi"
  by (simp add: passes_check_def)

lemma converts_simps: "converts None" "converts (Some (JInt n))" "converts (Some (JBool v))"
  by (simp_all add: converts_def)

lemma fails_autoZeroMode:
  assumes "\<not> passes_check 0 1 (data ''autoZeroMode'')"
  shows "\<exists>e. update_settings st data = (st, Settings_rejected e)"
proof -
  have "\<exists>e. block_autoZeroMode data st = Inl e"
    using assms by (auto simp: passes_check_def block_autoZeroMode_def split: option.splits)
  then show ?thesis by (auto simp: update_settings_def)
qed

lemma fails_autoZeroFreq:
  assumes "passes_check 0 1 (data ''autoZeroMode'')"
    and "\<not> passes_check 0 255 (data ''autoZeroFreq'')"
  shows "\<exists>e. update_settings st data
           = (st\<lparr>autoZeroMode := requested (data ''autoZeroMode'') (autoZeroMode st)\<rparr>,
              Settings_rejected e)"
proof -
  have "\<exists>e. block_autoZeroFreq data
          (st\<lparr>autoZeroMode := requested (data ''autoZeroMode'') (autoZeroMode st)\<rparr>) = Inl e"
    using assms(2) by (auto simp: passes_check_def block_autoZeroFreq_def split: option.splits)
  then show ?thesis
    using passes_autoZeroMode [of data st] assms(1) by (auto simp: update_settings_def)
qed

lemma stored_autoZeroMode:
  assumes "data ''autoZeroMode'' = Some (JInt v)" and "0 \<le> v" and "v \<le> 1"
  shows "autoZeroMode (fst (update_settings st data)) = v"
proof -
  have "block_autoZeroMode data st = Inr (st\<lparr>autoZeroMode := v\<rparr>)"
    using assms by (simp add: block_autoZeroMode_def)
  then show ?thesis
    using later_blocks_keep_autoZeroMode [of data "st\<lparr>autoZeroMode := v\<rparr>"]
    by (simp add: update_settings_run_blocks)
qed

lemma stored_autoZeroFreq:
  assumes "passes_check 0 1 (data ''autoZeroMode'')"
    and "data ''autoZeroFreq'' = Some (JInt v)" and "0 \<le> v" and "v \<le> 255"
  shows "autoZeroFreq (fst (update_settings st data)) = v"
proof -
  define s1 where "s1 = st\<lparr>autoZeroMode := requested (data ''autoZeroMode'') (autoZeroMode st)\<rparr>"
  have b1: "block_autoZeroMode data st = Inr s1"
    using passes_autoZeroMode [of data st] assms(1) by (simp add: s1_def)
  have b2: "block_autoZeroFreq data s1 = Inr (s1\<lparr>autoZeroFreq := v\<rparr>)"
    using assms(2-4) by (simp add: block_autoZeroFreq_def)
  show ?thesis
    using later_blocks_keep_autoZeroFreq [of data "s1\<lparr>autoZeroFreq := v\<rparr>"]
    by (simp add: update_settings_run_blocks b1 b2)
qed

lemma stored_waitTime:
  assumes "passes_check 0 1 (data ''autoZeroMode'')"
    and "passes_check 0 255 (data ''autoZeroFreq'')"
    and "data ''waitTime'' = Some (JInt v)" and "0 \<le> v" and "v \<le> 255"
  shows "waitTime (fst (update_settings st data)) = v"
proof -
  define s1 where "s1 = st\<lparr>autoZeroMode := requested (data ''autoZeroMode'') (autoZeroMode st)\<rparr>"
  define s2 where "s2 = s1\<lparr>autoZeroFreq := requested (data ''autoZeroFreq'') (autoZeroFreq s1)\<rparr>"
  have b1: "block_autoZeroMode data st = Inr s1"
    using passes_autoZeroMode [of data st] assms(1) by (simp add: s1_def)
  have b2: "block_autoZeroFreq data s1 = Inr s2"
    using passes_autoZeroFreq [of data s1] assms(2) by (simp add: s2_def)
  have b3: "block_waitTime data s2 = Inr (s2\<lparr>waitTime := v\<rparr>)"
    using assms(3-5) by (simp add: block_waitTime_def)
  show ?thesis
    using later_blocks_keep_waitTime [of data "s2\<lparr>waitTime := v\<rparr>"]
    by (simp add: update_settings_run_blocks b1 b2 b3)
qed

lemma out_of_range_autoZeroFreq:
  assumes "data ''autoZeroFreq'' = Some (JInt v)" and "\<not> (0 \<le> v \<and> v \<le> 255)"
  shows "(\<exists>e. snd (update_settings st data) = Settings_rejected e)
       \<and> autoZeroFreq (fst (update_settings st data)) = autoZeroFreq st"
proof (cases "passes_check 0 1 (data ''autoZeroMode'')")
  case True
  from rejected_at_autoZeroFreq [of data v st] True assms show ?thesis by simp
next
  case False
  from fails_autoZeroMode [of data st] False show ?thesis by auto
qed

lemma out_of_range_waitTime:
  assumes "data ''waitTime'' = Some (JInt v)" and "\<not> (0 \<le> v \<and> v \<le> 255)"
  shows "(\<exists>e. snd (update_settings st data) = Settings_rejected e)
       \<and> waitTime (fst (update_settings st data)) = waitTime st"
proof (cases "passes_check 0 1 (data ''autoZeroMode'')")
  case mode: True
  show ?thesis
  proof (cases "passes_check 0 255 (data ''autoZeroFreq'')")
    case True
    from rejected_at_waitTime [of data v st] mode True assms show ?thesis by simp
  next
    case False
    from fails_autoZeroFreq [of data st] mode False show ?thesis by auto
  qed
next
  case False
  from fails_autoZeroMode [of data st] False show ?thesis by auto
qed

subsection \<open>Range checks of the calibration fields\<close>

text \<open>
  C3, as the code has it. \<open>update_settings\<close> checks the calibration fields in the order
  autoZeroMode (0..1), autoZeroFreq (0..255), waitTime (0..255). For every out-of-range
  value of one of them the request is rejected with an error and the stored value of that
  field is left unchanged. An in-range value is stored exactly as supplied when no field
  checked before it in the same request is rejected: autoZeroMode always, autoZeroFreq
  when autoZeroMode is absent or passes, waitTime when both pass.
\<close>

theorem update_settings_range_checks:
  "(data ''autoZeroMode'' = Some (JInt v) \<and> \<not> (0 \<le> v \<and> v \<le> 1) \<longrightarrow>
      snd (update_settings st data) = Settings_rejected (Invalid_auto_zero_mode v)
      \<and> autoZeroMode (fst (update_settings st data)) = autoZeroMode st)
   \<and> (data ''autoZeroFreq'' = Some (JInt v) \<and> \<not> (0 \<le> v \<and> v \<le> 255) \<longrightarrow>
      (\<exists>e. snd (update_settings st data) = Settings_rejected e)
      \<and> autoZeroFreq (fst (update_settings st data)) = autoZeroFreq st)
   \<and> (data ''waitTime'' = Some (JInt v) \<and> \<not> (0 \<le> v \<and> v \<le> 255) \<longrightarrow>
      (\<exists>e. snd (update_settings st data) = Settings_rejected e)
      \<and> waitTime (fst (update_settings st data)) = waitTime st)
   \<and> (data ''autoZeroMode'' = Some (JInt v) \<and> 0 \<le> v \<and> v \<le> 1 \<longrightarrow>
      autoZeroMode (fst (update_settings st data)) = v)
   \<and> (data ''autoZeroFreq'' = Some (JInt v) \<and> 0 \<le> v \<and> v \<le> 255
        \<and> passes_check 0 1 (data ''autoZeroMode'') \<longrightarrow>
      autoZeroFreq (fst (update_settings st data)) = v)
   \<and> (data ''waitTime'' = Some (JInt v) \<and> 0 \<le> v \<and> v \<le> 255
        \<and> passes_check 0 1 (data ''autoZeroMode'')
        \<and> passes_check 0 255 (data ''autoZeroFreq'') \<longrightarrow>
      waitTime (fst (update_settings st data)) = v)"
proof -
  have "snd (update_settings st data) = Settings_rejected (Invalid_auto_zero_mode v)
      \<and> autoZeroMode (fst (update_settings st data)) = autoZeroMode st"
    if "data ''autoZeroMode'' = Some (JInt v)" "\<not> (0 \<le> v \<and> v \<le> 1)"
    using rejected_at_autoZeroMode [of data v st] that by simp
  then show ?thesis
    using out_of_range_autoZeroFreq [of data v st] out_of_range_waitTime [of data v st]
      stored_autoZeroMode [of data v st] stored_autoZeroFreq [of data v st]
      stored_waitTime [of data v st]
    by blast
qed

theorem update_settings_range_checks_witness:
  "autoZeroFreq (fst (update_settings initial_device_state
      [''autoZeroMode'' \<mapsto> JInt 0, ''autoZeroFreq'' \<mapsto> JInt 200])) = 200
   \<and> snd (update_settings initial_device_state
      [''autoZeroMode'' \<mapsto> JInt 7, ''autoZeroFreq'' \<mapsto> JInt 200])
       = Settings_rejected (Invalid_auto_zero_mode 7)
   \<and> autoZeroMode (fst (update_settings initial_device_state
      [''autoZeroMode'' \<mapsto> JInt 7, ''autoZeroFreq'' \<mapsto> JInt 200])) = 1
   \<and> autoZeroFreq (fst (update_settings initial_device_state
      [''autoZeroMode'' \<mapsto> JInt 0, ''autoZeroFreq'' \<mapsto> JInt 256])) = 127"
  using update_settings_range_checks [of "[''autoZeroMode'' \<mapsto> JInt 0, ''autoZeroFreq'' \<mapsto> JInt 200]"
      200 initial_device_state]
    update_settings_range_checks [of "[''autoZeroMode'' \<mapsto> JInt 7, ''autoZeroFreq'' \<mapsto> JInt 200]"
      7 initial_device_state]
    update_settings_range_checks [of "[''autoZeroMode'' \<mapsto> JInt 0, ''autoZeroFreq'' \<mapsto> JInt 256]"
      256 initial_device_state]
  by (simp add: passes_check_def initial_device_state_def)

text \<open>
  Counterexample to C3 as the specification words it: "every in-range value is stored
  exactly as supplied" fails on a request whose autoZeroMode is rejected: the in-range
  autoZeroFreq 100 of the same request is not stored, the device keeps 127.
\<close>

theorem in_range_value_not_stored:
  "(0::int) \<le> 100 \<and> (100::int) \<le> 255
   \<and> update_settings initial_device_state
        [''autoZeroMode'' \<mapsto> JInt 2, ''autoZeroFreq'' \<mapsto> JInt 100]
     = (initial_device_state, Settings_rejected (Invalid_auto_zero_mode 2))
   \<and> autoZeroFreq initial_device_state = 127"
proof -
  have "update_settings initial_device_state
        [''autoZeroMode'' \<mapsto> JInt 2, ''autoZeroFreq'' \<mapsto> JInt 100]
     = (initial_device_state, Settings_rejected (Invalid_auto_zero_mode 2))"
    by (rule rejected_at_autoZeroMode) simp_all
  then show ?thesis by (simp add: initial_device_state_def)
qed

subsection \<open>Several fields in one request\<close>

text \<open>
  C5, as the code has it. The fields of a request are processed in the fixed order
  autoZeroMode, autoZeroFreq, waitTime, atime, again, brightness, ledState. The first
  out-of-range calibration field ends the request with its error: the fields before it
  have been applied and stay applied, the rejected field and every field after it are
  not applied. Only when the three calibration fields pass (and \<^verbatim>\<open>int()\<close> converts
  atime, again and brightness) are all fields of the request applied.
\<close>

theorem update_settings_stops_at_first_rejected_field:
  "(data ''autoZeroMode'' = Some (JInt v) \<and> \<not> (0 \<le> v \<and> v \<le> 1) \<longrightarrow>
      update_settings st data = (st, Settings_rejected (Invalid_auto_zero_mode v)))
   \<and> (passes_check 0 1 (data ''autoZeroMode'')
        \<and> data ''autoZeroFreq'' = Some (JInt v) \<and> \<not> (0 \<le> v \<and> v \<le> 255) \<longrightarrow>
      update_settings st data
        = (st\<lparr>autoZeroMode := requested (data ''autoZeroMode'') (autoZeroMode st)\<rparr>,
           Settings_rejected (Invalid_auto_zero_frequency v)))
   \<and> (passes_check 0 1 (data ''autoZeroMode'') \<and> passes_check 0 255 (data ''autoZeroFreq'')
        \<and> data ''waitTime'' = Some (JInt v) \<and> \<not> (0 \<le> v \<and> v \<le> 255) \<longrightarrow>
      update_settings st data
        = (st\<lparr>autoZeroMode := requested (data ''autoZeroMode'') (autoZeroMode st),
               autoZeroFreq := requested (data ''autoZeroFreq'') (autoZeroFreq st)\<rparr>,
           Settings_rejected (Invalid_wait_time v)))
   \<and> (passes_check 0 1 (data ''autoZeroMode'') \<and> passes_check 0 255 (data ''autoZeroFreq'')
        \<and> passes_check 0 255 (data ''waitTime'') \<and> converts (data ''atime'')
        \<and> converts (data ''again'') \<and> converts (data ''brightness'') \<longrightarrow>
      update_settings st data
        = (st\<lparr>autoZeroMode := requested (data ''autoZeroMode'') (autoZeroMode st),
               autoZeroFreq := requested (data ''autoZeroFreq'') (autoZeroFreq st),
               waitTime := requested (data ''waitTime'') (waitTime st),
               atime := requested (data ''atime'') (atime st),
               again := requested (data ''again'') (again st),
               brightness := requested (data ''brightness'') (brightness st),
               ledState := requested_bool (data ''ledState'') (ledState st)\<rparr>,
           Settings_saved))"
  using rejected_at_autoZeroMode [of data v st] rejected_at_autoZeroFreq [of data v st]
    rejected_at_waitTime [of data v st] all_blocks_pass [of data st]
  by blast

theorem update_settings_stops_at_first_rejected_field_witness:
  "update_settings initial_device_state
      [''autoZeroMode'' \<mapsto> JInt 0, ''waitTime'' \<mapsto> JInt 999, ''again'' \<mapsto> JInt 2]
     = (initial_device_state\<lparr>autoZeroMode := 0, autoZeroFreq := 127\<rparr>,
        Settings_rejected (Invalid_wait_time 999))
   \<and> update_settings initial_device_state
      [''autoZeroMode'' \<mapsto> JInt 0, ''waitTime'' \<mapsto> JInt 9, ''again'' \<mapsto> JInt 2]
     = (initial_device_state\<lparr>autoZeroMode := 0, autoZeroFreq := 127, waitTime := 9, atime := 56,
          again := 2, brightness := 128, ledState := False\<rparr>,
        Settings_saved)"
  using update_settings_stops_at_first_rejected_field
      [of "[''autoZeroMode'' \<mapsto> JInt 0, ''waitTime'' \<mapsto> JInt 999, ''again'' \<mapsto> JInt 2]"
          999 initial_device_state]
    update_settings_stops_at_first_rejected_field
      [of "[''autoZeroMode'' \<mapsto> JInt 0, ''waitTime'' \<mapsto> JInt 9, ''again'' \<mapsto> JInt 2]"
          9 initial_device_state]
  by (simp add: passes_check_def converts_def requested_def requested_bool_def
      initial_device_state_def)

text \<open>
  Counterexample to C5 as the specification words it: that every in-range field of a
  request is applied whatever the validity of the others fails on a request whose autoZeroFreq is
  out of range: autoZeroMode, checked before it, is applied, but the in-range waitTime 10
  and atime 100 are not; the device keeps 0 and 56.
\<close>

theorem later_fields_not_applied:
  "update_settings initial_device_state
      [''autoZeroMode'' \<mapsto> JInt 0, ''autoZeroFreq'' \<mapsto> JInt 300,
       ''waitTime'' \<mapsto> JInt 10, ''atime'' \<mapsto> JInt 100]
     = (initial_device_state\<lparr>autoZeroMode := 0\<rparr>,
        Settings_rejected (Invalid_auto_zero_frequency 300))
   \<and> waitTime (initial_device_state\<lparr>autoZeroMode := 0\<rparr>) = 0
   \<and> atime (initial_device_state\<lparr>autoZeroMode := 0\<rparr>) = 56
   \<and> autoZeroMode initial_device_state = 1"
proof -
  have "update_settings initial_device_state
      [''autoZeroMode'' \<mapsto> JInt 0, ''autoZeroFreq'' \<mapsto> JInt 300,
       ''waitTime'' \<mapsto> JInt 10, ''atime'' \<mapsto> JInt 100]
     = (initial_device_state\<lparr>autoZeroMode :=
            requested ([''autoZeroMode'' \<mapsto> JInt 0, ''autoZeroFreq'' \<mapsto> JInt 300,
                        ''waitTime'' \<mapsto> JInt 10, ''atime'' \<mapsto> JInt 100] ''autoZeroMode'')
              (autoZeroMode initial_device_state)\<rparr>,
        Settings_rejected (Invalid_auto_zero_frequency 300))"
    by (rule rejected_at_autoZeroFreq) (simp_all add: passes_check_def)
  then show ?thesis
    by (simp add: requested_def initial_device_state_def)
qed

subsection \<open>Fields without a range check\<close>

lemma only_atime: "update_settings st [''atime'' \<mapsto> JInt n] = (st\<lparr>atime := n\<rparr>, Settings_saved)"
  using all_blocks_pass [of "[''atime'' \<mapsto> JInt n]" st]
  by (simp add: passes_check_def converts_def requested_def requested_bool_def)

lemma only_again: "update_settings st [''again'' \<mapsto> JInt n] = (st\<lparr>again := n\<rparr>, Settings_saved)"
  using all_blocks_pass [of "[''again'' \<mapsto> JInt n]" st]
  by (simp add: passes_check_def converts_def requested_def requested_bool_def)

lemma only_ledState:
  "update_settings st [''ledState'' \<mapsto> x] = (st\<lparr>ledState := py_bool x\<rparr>, Settings_saved)"
  using all_blocks_pass [of "[''ledState'' \<mapsto> x]" st]
  by (simp add: passes_check_def converts_def requested_def requested_bool_def)

lemma only_brightness:
  "update_settings st [''brightness'' \<mapsto> JInt n] = (st\<lparr>brightness := n\<rparr>, Settings_saved)"
  using all_blocks_pass [of "[''brightness'' \<mapsto> JInt n]" st]
  by (simp add: passes_check_def converts_def requested_def requested_bool_def)

subsection \<open>Brightness\<close>

text \<open>
  C4. The settings handler stores a brightness outside 0..255 and answers "Settings
  saved": on the initial state the request \<^verbatim>\<open>{"brightness": 300}\<close> leaves 300 in the
  device state, whereas the handler of \<^verbatim>\<open>/brightness\<close> rejects the same body and
  leaves the stored 128 as it is.
\<close>

theorem update_settings_stores_brightness_300:
  "update_settings initial_device_state [''brightness'' \<mapsto> JInt 300]
     = (initial_device_state\<lparr>brightness := 300\<rparr>, Settings_saved)
   \<and> brightness (fst (update_settings initial_device_state [''brightness'' \<mapsto> JInt 300])) = 300
   \<and> brightness initial_device_state = 128
   \<and> update_brightness initial_device_state [''brightness'' \<mapsto> JInt 300]
     = (initial_device_state, Brightness_must_be_0_255)"
  by (simp add: only_brightness update_brightness_def) (simp add: initial_device_state_def)

subsection \<open>The response does not depend on unchecked values\<close>

text \<open>
  Two runs whose blocks agree pairwise on when they fail, and with which error, end with
  the same response, whatever the states they run on.
\<close>

lemma run_blocks_same_response:
  assumes "list_all2 (\<lambda>blk blk'. \<forall>s s' e. (blk s = Inl e) = (blk' s' = Inl e)) bs bs'"
  shows "snd (run_blocks bs st) = snd (run_blocks bs' st')"
  using assms
proof (induction bs bs' arbitrary: st st' rule: list_all2_induct)
  case Nil
  then show ?case by simp
next
  case (Cons blk bs blk' bs')
  show ?case
  proof (cases "blk st")
    case (Inl e)
    with Cons.hyps(1) have "blk' st' = Inl e" by blast
    with Inl show ?thesis by simp
  next
    case (Inr s1)
    have "\<exists>s1'. blk' st' = Inr s1'"
    proof (cases "blk' st'")
      case (Inl e)
      with Cons.hyps(1) have "blk st = Inl e" by blast
      with Inr show ?thesis by simp
    qed simp
    then obtain s1' where "blk' st' = Inr s1'" ..
    with Inr Cons.IH [of s1 s1'] show ?thesis by simp
  qed
qed

lemma same_response_for_any_atime:
  "snd (update_settings st (data(''atime'' \<mapsto> JInt n)))
     = snd (update_settings st' (data(''atime'' \<mapsto> JInt m)))"
  unfolding update_settings_run_blocks
  by (rule run_blocks_same_response)
    (auto simp: block_autoZeroMode_def block_autoZeroFreq_def block_waitTime_def block_atime_def
      block_again_def block_brightness_def block_ledState_def split: option.splits)

lemma same_response_for_any_again:
  "snd (update_settings st (data(''again'' \<mapsto> JInt n)))
     = snd (update_settings st' (data(''again'' \<mapsto> JInt m)))"
  unfolding update_settings_run_blocks
  by (rule run_blocks_same_response)
    (auto simp: block_autoZeroMode_def block_autoZeroFreq_def block_waitTime_def block_atime_def
      block_again_def block_brightness_def block_ledState_def split: option.splits)

lemma same_response_for_any_ledState:
  "snd (update_settings st (data(''ledState'' \<mapsto> x)))
     = snd (update_settings st' (data(''ledState'' \<mapsto> y)))"
  unfolding update_settings_run_blocks
  by (rule run_blocks_same_response)
    (auto simp: block_autoZeroMode_def block_autoZeroFreq_def block_waitTime_def block_atime_def
      block_again_def block_brightness_def block_ledState_def split: option.splits)

text \<open>A request that is saved has stored what it supplied for the three fields.\<close>

lemma saved_stores_unchecked_fields:
  assumes "snd (update_settings st data) = Settings_saved"
  shows "(data ''atime'' = Some (JInt n) \<longrightarrow> atime (fst (update_settings st data)) = n)
       \<and> (data ''again'' = Some (JInt n) \<longrightarrow> again (fst (update_settings st data)) = n)
       \<and> (data ''ledState'' = Some x \<longrightarrow> ledState (fst (update_settings st data)) = py_bool x)"
proof -
  from assms obtain s1 s2 s3 s4 s5 s6 s7
    where b: "block_autoZeroMode data st = Inr s1" "block_autoZeroFreq data s1 = Inr s2"
      "block_waitTime data s2 = Inr s3" "block_atime data s3 = Inr s4"
      "block_again data s4 = Inr s5" "block_brightness data s5 = Inr s6"
      "block_ledState data s6 = Inr s7"
      and res: "fst (update_settings st data) = s7"
    by (auto simp: update_settings_def split: sum.splits)
  have "atime s7 = atime s4"
    using block_again_others [OF b(5)] block_brightness_others [OF b(6)]
      block_ledState_others [OF b(7)] by simp
  moreover have "again s7 = again s5"
    using block_brightness_others [OF b(6)] block_ledState_others [OF b(7)] by simp
  moreover have "data ''atime'' = Some (JInt n) \<longrightarrow> atime s4 = n"
    using b(4) by (auto simp: block_atime_def)
  moreover have "data ''again'' = Some (JInt n) \<longrightarrow> again s5 = n"
    using b(5) by (auto simp: block_again_def)
  moreover have "data ''ledState'' = Some x \<longrightarrow> ledState s7 = py_bool x"
    using b(7) by (auto simp: block_ledState_def)
  ultimately show ?thesis using res by simp
qed

text \<open>
  C10. The blocks of atime, again and ledState have no range check and no rejecting
  branch: for every integer supplied for atime or again, and every value supplied for
  ledState, the block stores the value as given (its truth value for ledState). A request
  of that one field is saved for every such value. In any request the response is the
  same whichever integer is supplied for atime or again and whichever value for ledState,
  and a request that is saved has stored the supplied values; it is saved whenever the
  calibration fields pass their checks.
\<close>

theorem atime_again_ledState_not_range_checked:
  "(data ''atime'' = Some (JInt n) \<longrightarrow> block_atime data st = Inr (st\<lparr>atime := n\<rparr>))
   \<and> (data ''again'' = Some (JInt n) \<longrightarrow> block_again data st = Inr (st\<lparr>again := n\<rparr>))
   \<and> (data ''ledState'' = Some x \<longrightarrow> block_ledState data st = Inr (st\<lparr>ledState := py_bool x\<rparr>))
   \<and> update_settings st [''atime'' \<mapsto> JInt n] = (st\<lparr>atime := n\<rparr>, Settings_saved)
   \<and> update_settings st [''again'' \<mapsto> JInt n] = (st\<lparr>again := n\<rparr>, Settings_saved)
   \<and> update_settings st [''ledState'' \<mapsto> x] = (st\<lparr>ledState := py_bool x\<rparr>, Settings_saved)
   \<and> snd (update_settings st (data(''atime'' \<mapsto> JInt n)))
       = snd (update_settings st (data(''atime'' \<mapsto> JInt m)))
   \<and> snd (update_settings st (data(''again'' \<mapsto> JInt n)))
       = snd (update_settings st (data(''again'' \<mapsto> JInt m)))
   \<and> snd (update_settings st (data(''ledState'' \<mapsto> x)))
       = snd (update_settings st (data(''ledState'' \<mapsto> y)))
   \<and> (snd (update_settings st data) = Settings_saved \<longrightarrow>
        (data ''atime'' = Some (JInt n) \<longrightarrow> atime (fst (update_settings st data)) = n)
      \<and> (data ''again'' = Some (JInt n) \<longrightarrow> again (fst (update_settings st data)) = n)
      \<and> (data ''ledState'' = Some x \<longrightarrow> ledState (fst (update_settings st data)) = py_bool x))
   \<and> (passes_check 0 1 (data ''autoZeroMode'') \<and> passes_check 0 255 (data ''autoZeroFreq'')
        \<and> passes_check 0 255 (data ''waitTime'') \<and> converts (data ''atime'')
        \<and> converts (data ''again'') \<and> converts (data ''brightness'') \<longrightarrow>
      snd (update_settings st data) = Settings_saved)"
proof -
  have blocks: "(data ''atime'' = Some (JInt n) \<longrightarrow> block_atime data st = Inr (st\<lparr>atime := n\<rparr>))
   \<and> (data ''again'' = Some (JInt n) \<longrightarrow> block_again data st = Inr (st\<lparr>again := n\<rparr>))
   \<and> (data ''ledState'' = Some x \<longrightarrow> block_ledState data st = Inr (st\<lparr>ledState := py_bool x\<rparr>))"
    by (simp add: block_atime_def block_again_def block_ledState_def)
  have saved: "snd (update_settings st data) = Settings_saved"
    if "passes_check 0 1 (data ''autoZeroMode'')" "passes_check 0 255 (data ''autoZeroFreq'')"
      "passes_check 0 255 (data ''waitTime'')" "converts (data ''atime'')"
      "converts (data ''again'')" "converts (data ''brightness'')"
    using all_blocks_pass [of data st] that by simp
  from blocks saved only_atime [of st n] only_again [of st n] only_ledState [of st x]
    same_response_for_any_atime [of st data n st m]
    same_response_for_any_again [of st data n st m]
    same_response_for_any_ledState [of st data x st y]
    saved_stores_unchecked_fields [of st data n x]
  show ?thesis by blast
qed

theorem atime_again_ledState_not_range_checked_witness:
  "update_settings initial_device_state
      [''waitTime'' \<mapsto> JInt 5, ''atime'' \<mapsto> JInt 100000, ''ledState'' \<mapsto> JInt 3]
     = (initial_device_state\<lparr>waitTime := 5, atime := 100000, ledState := True\<rparr>, Settings_saved)
   \<and> block_again [''again'' \<mapsto> JInt (- 7)] initial_device_state
     = Inr (initial_device_state\<lparr>again := - 7\<rparr>)"
proof -
  let ?data = "[''waitTime'' \<mapsto> JInt 5, ''atime'' \<mapsto> JInt 100000, ''ledState'' \<mapsto> JInt 3]"
  have hyp: "passes_check 0 1 (?data ''autoZeroMode'') \<and> passes_check 0 255 (?data ''autoZeroFreq'')
        \<and> passes_check 0 255 (?data ''waitTime'') \<and> converts (?data ''atime'')
        \<and> converts (?data ''again'') \<and> converts (?data ''brightness'')"
    by (simp add: passes_check_def converts_def)
  have "snd (update_settings initial_device_state ?data) = Settings_saved
      \<and> atime (fst (update_settings initial_device_state ?data)) = 100000
      \<and> ledState (fst (update_settings initial_device_state ?data)) = py_bool (JInt 3)"
  proof -
    have look: "?data ''atime'' = Some (JInt 100000)" "?data ''ledState'' = Some (JInt 3)"
      by simp_all
    from hyp look atime_again_ledState_not_range_checked
      [of ?data 100000 initial_device_state "JInt 3" 0 JNull]
    show ?thesis by blast
  qed
  moreover have "update_settings initial_device_state ?data
      = (initial_device_state\<lparr>waitTime := 5, atime := 100000, ledState := True\<rparr>, Settings_saved)"
    using all_blocks_pass [of ?data initial_device_state] hyp
    by (simp add: requested_def requested_bool_def initial_device_state_def)
  moreover have "block_again [''again'' \<mapsto> JInt (- 7)] initial_device_state
     = Inr (initial_device_state\<lparr>again := - 7\<rparr>)"
    using atime_again_ledState_not_range_checked
      [of "[''again'' \<mapsto> JInt (- 7)]" "- 7" initial_device_state JNull 0 JNull]
    by simp
  ultimately show ?thesis by simp
qed

section \<open>Properties of the black-level validation\<close>

lemma check_channels_xyz:
  "check_channels bc wc [''x'', ''y'', ''z''] =
     (if amended_ratio bc wc ''x'' > 15 / 100 then Some (''x'', amended_ratio bc wc ''x'')
      else if amended_ratio bc wc ''y'' > 15 / 100 then Some (''y'', amended_ratio bc wc ''y'')
      else if amended_ratio bc wc ''z'' > 15 / 100 then Some (''z'', amended_ratio bc wc ''z'')
      else None)"
proof -
  have step: "check_channels bc wc (c # rest) =
      (if amended_ratio bc wc c > 15 / 100 then Some (c, amended_ratio bc wc c)
       else check_channels bc wc rest)" for c rest
    by (simp add: amended_ratio_def Let_def split: option.splits)
  show ?thesis
    unfolding step by simp
qed

lemma validate_black_levels_present:
  "validate_black_levels (True, \<lparr>blackCalibration = Some bc, whiteCalibration = Some wc\<rparr>) =
     (if amended_ratio bc wc ''x'' > 15 / 100
        then (False, Channel_too_high ''x'' (amended_ratio bc wc ''x''))
      else if amended_ratio bc wc ''y'' > 15 / 100
        then (False, Channel_too_high ''y'' (amended_ratio bc wc ''y''))
      else if amended_ratio bc wc ''z'' > 15 / 100
        then (False, Channel_too_high ''z'' (amended_ratio bc wc ''z''))
      else (True, All_channels_within_acceptable_ranges))"
  unfolding validate_black_levels_def check_channels_xyz by simp

lemma amended_ratio_ignores_ir:
  "c \<noteq> ''ir'' \<Longrightarrow> amended_ratio (bc(''ir'' := u)) (wc(''ir'' := w)) c = amended_ratio bc wc c"
  by (simp add: amended_ratio_def)

text \<open>
  C2, as the code has it. With both calibrations present, the validation computes for
  each channel of x, y, z only (a change of the ir readings changes nothing) the ratio
  black / white, an absent black reading counting as 0 and an absent white reading as
  65535, and the ratio being 1 when the white reading is zero or negative; it fails
  exactly when some ratio exceeds 0.15, reporting the first such channel in the order
  x, y, z with its ratio. Black (500, 600, 550) against white (40000, 42000, 41000)
  passes; black with x = 7000 against the same white fails on x with ratio 0.175.
\<close>

theorem validate_black_levels_ratio_check:
  "validate_black_levels (True, \<lparr>blackCalibration = Some bc, whiteCalibration = Some wc\<rparr>) =
     (if amended_ratio bc wc ''x'' > 15 / 100
        then (False, Channel_too_high ''x'' (amended_ratio bc wc ''x''))
      else if amended_ratio bc wc ''y'' > 15 / 100
        then (False, Channel_too_high ''y'' (amended_ratio bc wc ''y''))
      else if amended_ratio bc wc ''z'' > 15 / 100
        then (False, Channel_too_high ''z'' (amended_ratio bc wc ''z''))
      else (True, All_channels_within_acceptable_ranges))
   \<and> (fst (validate_black_levels
              (True, \<lparr>blackCalibration = Some bc, whiteCalibration = Some wc\<rparr>)) = False
        \<longleftrightarrow> (\<exists>c \<in> {''x'', ''y'', ''z''}. amended_ratio bc wc c > 15 / 100))
   \<and> validate_black_levels
        (True, \<lparr>blackCalibration = Some (bc(''ir'' := u)), whiteCalibration = Some (wc(''ir'' := w))\<rparr>)
      = validate_black_levels (True, \<lparr>blackCalibration = Some bc, whiteCalibration = Some wc\<rparr>)
   \<and> validate_black_levels
        (True, \<lparr>blackCalibration = Some [''x'' \<mapsto> 500, ''y'' \<mapsto> 600, ''z'' \<mapsto> 550],
                whiteCalibration = Some [''x'' \<mapsto> 40000, ''y'' \<mapsto> 42000, ''z'' \<mapsto> 41000]\<rparr>)
      = (True, All_channels_within_acceptable_ranges)
   \<and> validate_black_levels
        (True, \<lparr>blackCalibration = Some [''x'' \<mapsto> 7000, ''y'' \<mapsto> 600, ''z'' \<mapsto> 550],
                whiteCalibration = Some [''x'' \<mapsto> 40000, ''y'' \<mapsto> 42000, ''z'' \<mapsto> 41000]\<rparr>)
      = (False, Channel_too_high ''x'' (175 / 1000))"
proof -
  have ir: "validate_black_levels
        (True, \<lparr>blackCalibration = Some (bc(''ir'' := u)), whiteCalibration = Some (wc(''ir'' := w))\<rparr>)
      = validate_black_levels (True, \<lparr>blackCalibration = Some bc, whiteCalibration = Some wc\<rparr>)"
    unfolding validate_black_levels_present
    by (simp add: amended_ratio_ignores_ir)
  have iff: "fst (validate_black_levels
              (True, \<lparr>blackCalibration = Some bc, whiteCalibration = Some wc\<rparr>)) = False
        \<longleftrightarrow> (\<exists>c \<in> {''x'', ''y'', ''z''}. amended_ratio bc wc c > 15 / 100)"
    unfolding validate_black_levels_present by simp
  have pass: "validate_black_levels
        (True, \<lparr>blackCalibration = Some [''x'' \<mapsto> 500, ''y'' \<mapsto> 600, ''z'' \<mapsto> 550],
                whiteCalibration = Some [''x'' \<mapsto> 40000, ''y'' \<mapsto> 42000, ''z'' \<mapsto> 41000]\<rparr>)
      = (True, All_channels_within_acceptable_ranges)"
    unfolding validate_black_levels_present by (simp add: amended_ratio_def)
  have fail: "validate_black_levels
        (True, \<lparr>blackCalibration = Some [''x'' \<mapsto> 7000, ''y'' \<mapsto> 600, ''z'' \<mapsto> 550],
                whiteCalibration = Some [''x'' \<mapsto> 40000, ''y'' \<mapsto> 42000, ''z'' \<mapsto> 41000]\<rparr>)
      = (False, Channel_too_high ''x'' (175 / 1000))"
    unfolding validate_black_levels_present by (simp add: amended_ratio_def)
  from validate_black_levels_present [of bc wc] iff ir pass fail show ?thesis
    by (intro conjI)
qed

theorem validate_black_levels_ratio_check_witness:
  "''y'' \<in> {''x'', ''y'', ''z''}
   \<and> amended_ratio [''x'' \<mapsto> 500, ''y'' \<mapsto> 9000] [''x'' \<mapsto> 40000, ''y'' \<mapsto> 42000] ''y'' > 15 / 100
   \<and> validate_black_levels
        (True, \<lparr>blackCalibration = Some [''x'' \<mapsto> 500, ''y'' \<mapsto> 9000],
                whiteCalibration = Some [''x'' \<mapsto> 40000, ''y'' \<mapsto> 42000]\<rparr>)
      = (False, Channel_too_high ''y'' (9000 / 42000))"
  using validate_black_levels_ratio_check
    [of "[''x'' \<mapsto> 500, ''y'' \<mapsto> 9000]" "[''x'' \<mapsto> 40000, ''y'' \<mapsto> 42000]" None None]
  by (simp add: amended_ratio_def)

text \<open>
  Counterexample to C2 as the specification words it, with a white reading of zero
  replaced by 65535. On
  black (500, 600, 550) against white (0, 42000, 41000) every ratio in that wording is
  below 0.15, so the validation would pass; the code takes the ratio of x to be 1 and
  fails on x.
\<close>

theorem zero_white_reading_fails:
  "validate_black_levels
     (True, \<lparr>blackCalibration = Some [''x'' \<mapsto> 500, ''y'' \<mapsto> 600, ''z'' \<mapsto> 550],
             whiteCalibration = Some [''x'' \<mapsto> 0, ''y'' \<mapsto> 42000, ''z'' \<mapsto> 41000]\<rparr>)
     = (False, Channel_too_high ''x'' 1)
   \<and> \<not> spec_ratio [''x'' \<mapsto> 500, ''y'' \<mapsto> 600, ''z'' \<mapsto> 550]
          [''x'' \<mapsto> 0, ''y'' \<mapsto> 42000, ''z'' \<mapsto> 41000] ''x'' > 15 / 100
   \<and> \<not> spec_ratio [''x'' \<mapsto> 500, ''y'' \<mapsto> 600, ''z'' \<mapsto> 550]
          [''x'' \<mapsto> 0, ''y'' \<mapsto> 42000, ''z'' \<mapsto> 41000] ''y'' > 15 / 100
   \<and> \<not> spec_ratio [''x'' \<mapsto> 500, ''y'' \<mapsto> 600, ''z'' \<mapsto> 550]
          [''x'' \<mapsto> 0, ''y'' \<mapsto> 42000, ''z'' \<mapsto> 41000] ''z'' > 15 / 100"
  by (simp add: validate_black_levels_def spec_ratio_def)

section \<open>Properties of the brightness optimizer\<close>

lemma with_setting_fields:
  "iterations (with_setting s st) = iterations st"
  "target_min (with_setting s st) = target_min st"
  "target_max (with_setting s st) = target_max st"
  "control_variable (with_setting s st) = control_variable st"
  "in_range (with_setting s st) = in_range st"
  "setting_of (with_setting s st) = s"
  by (simp_all add: with_setting_def setting_of_def split: prod.splits)

lemma setting_of_other_fields:
  "setting_of (st\<lparr>control_variable := cv, in_range := r, iterations := k\<rparr>) = setting_of st"
  "setting_of (st\<lparr>in_range := r\<rparr>) = setting_of st"
  by (simp_all add: setting_of_def)

lemma unat_succ_below:
  fixes i :: "32 word"
  assumes "i < cap"
  shows "unat (i + 1) = Suc (unat i)"
  using assms by unat_arith

text \<open>
  What a run that returns a state has done, by induction along the loop: the band is
  untouched, the counter stays within the cap, the control variable returned is the one
  acquired last, under the setting returned, and \<open>in_range\<close> tells whether it lies in the
  band; a run that ends outside the band has used up the cap.
\<close>

lemma optimize_loop_result:
  assumes "optimize_loop cap port adjust st = Inr st'"
  shows "target_min st' = target_min st \<and> target_max st' = target_max st
     \<and> (iterations st \<le> cap \<longrightarrow> iterations st' \<le> cap)
     \<and> (iterations st < cap \<longrightarrow>
          port (unat (iterations st') - 1) (setting_of st') = Some (control_variable st')
          \<and> (in_range st' \<longleftrightarrow>
                target_min st \<le> control_variable st' \<and> control_variable st' \<le> target_max st)
          \<and> (\<not> in_range st' \<longrightarrow> iterations st' = cap))
     \<and> (cap \<le> iterations st \<longrightarrow> st' = st\<lparr>in_range := False\<rparr>)"
  using assms
proof (induction cap port adjust st rule: optimize_loop.induct)
  case (1 cap port adjust st)
  show ?case
  proof (cases "cap \<le> iterations st")
    case True
    then have "st' = st\<lparr>in_range := False\<rparr>"
      using "1.prems" by (subst (asm) optimize_loop.simps) simp
    with True show ?thesis by auto
  next
    case False
    then have less: "iterations st < cap" by simp
    then have next_le: "iterations st + 1 \<le> cap" by (rule inc_le)
    have pred: "unat (iterations st + 1) - 1 = unat (iterations st)"
      using unat_succ_below [OF less] by simp
    show ?thesis
    proof (cases "port (unat (iterations st)) (setting_of st)")
      case None
      then show ?thesis
        using "1.prems" False by (subst (asm) optimize_loop.simps) simp
    next
      case (Some cv)
      show ?thesis
      proof (cases "target_min st \<le> cv \<and> cv \<le> target_max st")
        case True
        then have "st' = st\<lparr>control_variable := cv, in_range := True,
                             iterations := iterations st + 1\<rparr>"
          using "1.prems" False Some by (subst (asm) optimize_loop.simps) simp
        then show ?thesis
          using True False Some next_le pred by (simp add: setting_of_def)
      next
        case outside: False
        show ?thesis
        proof (cases "cap \<le> iterations st + 1")
          case True
          then have "st' = st\<lparr>control_variable := cv, in_range := False,
                               iterations := iterations st + 1\<rparr>"
            using "1.prems" False Some outside by (subst (asm) optimize_loop.simps) simp
          moreover have "iterations st + 1 = cap"
            using True next_le by simp
          ultimately show ?thesis
            using outside False Some pred by (auto simp: setting_of_def)
        next
          case more: False
          define st2 where "st2 = with_setting (adjust (setting_of st) cv)
                          (st\<lparr>control_variable := cv, iterations := iterations st + 1\<rparr>)"
          have run: "optimize_loop cap port adjust st2 = Inr st'"
            using "1.prems" False Some outside more
            by (subst (asm) optimize_loop.simps) (simp add: st2_def)
          have ih: "target_min st' = target_min st2 \<and> target_max st' = target_max st2
             \<and> (iterations st2 \<le> cap \<longrightarrow> iterations st' \<le> cap)
             \<and> (iterations st2 < cap \<longrightarrow>
                  port (unat (iterations st') - 1) (setting_of st') = Some (control_variable st')
                  \<and> (in_range st' \<longleftrightarrow>
                        target_min st2 \<le> control_variable st' \<and> control_variable st' \<le> target_max st2)
                  \<and> (\<not> in_range st' \<longrightarrow> iterations st' = cap))
             \<and> (cap \<le> iterations st2 \<longrightarrow> st' = st2\<lparr>in_range := False\<rparr>)"
            using "1.IH" [OF False Some outside more] run by (simp add: st2_def)
          have st2: "iterations st2 = iterations st + 1" "target_min st2 = target_min st"
            "target_max st2 = target_max st"
            by (simp_all add: st2_def with_setting_fields)
          have "iterations st2 < cap" using more st2 by simp
          with ih st2 False show ?thesis by simp
        qed
      qed
    qed
  qed
qed

lemma optimize_loop_total:
  assumes "\<forall>k s. port k s \<noteq> None"
  shows "\<exists>st'. optimize_loop cap port adjust st = Inr st'"
  using assms
proof (induction cap port adjust st rule: optimize_loop.induct)
  case (1 cap port adjust st)
  show ?case
  proof (cases "cap \<le> iterations st")
    case True
    then show ?thesis by (subst optimize_loop.simps) simp
  next
    case False
    from "1.prems" obtain cv where cv: "port (unat (iterations st)) (setting_of st) = Some cv"
      by (meson option.exhaust)
    show ?thesis
    proof (cases "(target_min st \<le> cv \<and> cv \<le> target_max st) \<or> cap \<le> iterations st + 1")
      case True
      then show ?thesis using False cv by (subst optimize_loop.simps) auto
    next
      case more: False
      then have "\<exists>st'. optimize_loop cap port adjust
                       (with_setting (adjust (setting_of st) cv)
                          (st\<lparr>control_variable := cv, iterations := iterations st + 1\<rparr>)) = Inr st'"
        using "1.IH" [OF False cv] "1.prems" by simp
      then show ?thesis using False cv more by (subst optimize_loop.simps) simp
    qed
  qed
qed

lemma optimize_start:
  "iterations (with_setting s0
          \<lparr>opt_brightness = 0, opt_atime = 0, opt_again = 0, control_variable = 0,
           target_min = tmin, target_max = tmax, in_range = False, iterations = 0\<rparr>) = 0"
  "target_min (with_setting s0
          \<lparr>opt_brightness = 0, opt_atime = 0, opt_again = 0, control_variable = 0,
           target_min = tmin, target_max = tmax, in_range = False, iterations = 0\<rparr>) = tmin"
  "target_max (with_setting s0
          \<lparr>opt_brightness = 0, opt_atime = 0, opt_again = 0, control_variable = 0,
           target_min = tmin, target_max = tmax, in_range = False, iterations = 0\<rparr>) = tmax"
  by (simp_all add: with_setting_fields)

lemma optimize_result:
  assumes "optimize cap port adjust s0 tmin tmax = Inr st"
  shows "iterations st \<le> cap \<and> target_min st = tmin \<and> target_max st = tmax
       \<and> (in_range st \<longrightarrow> tmin \<le> control_variable st \<and> control_variable st \<le> tmax)
       \<and> (0 < cap \<longrightarrow>
            port (unat (iterations st) - 1) (setting_of st) = Some (control_variable st)
            \<and> (\<not> in_range st \<longrightarrow>
                 iterations st = cap
                 \<and> \<not> (tmin \<le> control_variable st \<and> control_variable st \<le> tmax)))"
proof (cases "0 < cap")
  case True
  from optimize_loop_result [OF assms [unfolded optimize_def]] True
  show ?thesis by (simp add: optimize_start)
next
  case False
  then have "cap = 0" by (simp add: word_gt_0)
  with optimize_loop_result [OF assms [unfolded optimize_def]]
  show ?thesis by (simp add: optimize_start)
qed

text \<open>
  C9. The optimizer loop stops within the iteration cap on every control-variable
  trajectory: the loop function is total (its termination is proved with the definition),
  a run that returns has counted no more iterations than the cap, and when every
  acquisition succeeds the run returns a state. The control variable returned is the one
  acquired last, under the setting returned. A run that ends outside the target band has
  counted exactly the cap and returns that last attempted setting with
  \<open>in_range = False\<close>, not an error; so does every run whose control variable never
  enters the band.
\<close>

theorem optimizer_stops_within_cap:
  "(\<forall>st. optimize cap port adjust s0 tmin tmax = Inr st \<longrightarrow>
       iterations st \<le> cap
     \<and> (in_range st \<longrightarrow> tmin \<le> control_variable st \<and> control_variable st \<le> tmax)
     \<and> (0 < cap \<longrightarrow>
          port (unat (iterations st) - 1) (setting_of st) = Some (control_variable st)
          \<and> (\<not> in_range st \<longrightarrow>
               iterations st = cap
               \<and> \<not> (tmin \<le> control_variable st \<and> control_variable st \<le> tmax))))
   \<and> ((\<forall>k s. port k s \<noteq> None) \<longrightarrow> (\<exists>st. optimize cap port adjust s0 tmin tmax = Inr st))
   \<and> ((\<forall>k s. port k s \<noteq> None) \<and> (\<forall>k s cv. port k s = Some cv \<longrightarrow> \<not> (tmin \<le> cv \<and> cv \<le> tmax)) \<longrightarrow>
        (\<exists>st. optimize cap port adjust s0 tmin tmax = Inr st
              \<and> \<not> in_range st \<and> iterations st = cap))"
proof (intro conjI allI impI)
  fix st
  assume run: "optimize cap port adjust s0 tmin tmax = Inr st"
  from optimize_result [OF run]
  show "iterations st \<le> cap"
    and "in_range st \<Longrightarrow> tmin \<le> control_variable st"
    and "in_range st \<Longrightarrow> control_variable st \<le> tmax"
    and "0 < cap \<Longrightarrow> port (unat (iterations st) - 1) (setting_of st) = Some (control_variable st)"
    and "0 < cap \<Longrightarrow> \<not> in_range st \<Longrightarrow> iterations st = cap"
    by simp_all
  from optimize_result [OF run]
  show "0 < cap \<Longrightarrow> \<not> in_range st \<Longrightarrow>
        \<not> (tmin \<le> control_variable st \<and> control_variable st \<le> tmax)"
    by simp
next
  assume "\<forall>k s. port k s \<noteq> None"
  then show "\<exists>st. optimize cap port adjust s0 tmin tmax = Inr st"
    unfolding optimize_def by (rule optimize_loop_total)
next
  assume a: "(\<forall>k s. port k s \<noteq> None) \<and> (\<forall>k s cv. port k s = Some cv \<longrightarrow> \<not> (tmin \<le> cv \<and> cv \<le> tmax))"
  then obtain st where run: "optimize cap port adjust s0 tmin tmax = Inr st"
    unfolding optimize_def using optimize_loop_total by blast
  note res = optimize_result [OF run]
  show "\<exists>st. optimize cap port adjust s0 tmin tmax = Inr st \<and> \<not> in_range st \<and> iterations st = cap"
  proof (cases "0 < cap")
    case True
    with res have last: "port (unat (iterations st) - 1) (setting_of st) = Some (control_variable st)"
      by simp
    with a have "\<not> (tmin \<le> control_variable st \<and> control_variable st \<le> tmax)" by blast
    with res have "\<not> in_range st" by blast
    with res True run show ?thesis by blast
  next
    case False
    then have zero: "cap = 0" by (simp add: word_gt_0)
    then have "st = (with_setting s0
          \<lparr>opt_brightness = 0, opt_atime = 0, opt_again = 0, control_variable = 0,
           target_min = tmin, target_max = tmax, in_range = False, iterations = 0\<rparr>)\<lparr>in_range := False\<rparr>"
      using optimize_loop_result [OF run [unfolded optimize_def]] by (simp add: optimize_start)
    then have "\<not> in_range st \<and> iterations st = cap"
      by (simp add: zero optimize_start)
    with run show ?thesis by blast
  qed
qed

text \<open>
  A run that never reaches the band [20000, 55000]: the sensor reports 100 at every
  acquisition, the adjustment raises the brightness by 10, the cap is 3. The brightness
  goes 128, 138, 148; the state returned holds 148, the setting of the third and last
  acquisition, not a fourth setting.
\<close>

lemma three_attempts:
  "optimize 3 (\<lambda>k s. Some 100) (\<lambda>(b, t, g) cv. (b + 10, t, g)) (128, 56, 3) 20000 55000
     = Inr \<lparr>opt_brightness = 148, opt_atime = 56, opt_again = 3, control_variable = 100,
            target_min = 20000, target_max = 55000, in_range = False, iterations = 3\<rparr>"
  by (simp add: optimize_def with_setting_def setting_of_def word_le_nat_alt)

theorem optimizer_stops_within_cap_witness:
  "\<exists>st. optimize 3 (\<lambda>k s. Some 100) (\<lambda>(b, t, g) cv. (b + 10, t, g)) (128, 56, 3) 20000 55000
          = Inr st
       \<and> \<not> in_range st \<and> iterations st = 3 \<and> iterations st \<le> 3
       \<and> control_variable st = 100"
proof -
  have total: "\<forall>k (s :: setting). Some (100 :: real) \<noteq> None"
    by simp
  have outside: "\<forall>k (s :: setting) cv. Some (100 :: real) = Some cv \<longrightarrow> \<not> (20000 \<le> cv \<and> cv \<le> 55000)"
    by simp
  note claim = optimizer_stops_within_cap
      [of 3 "\<lambda>k s. Some 100" "\<lambda>(b, t, g) cv. (b + 10, t, g)" "(128, 56, 3)" 20000 55000]
  from claim total outside obtain st
    where run: "optimize 3 (\<lambda>k s. Some 100) (\<lambda>(b, t, g) cv. (b + 10, t, g)) (128, 56, 3) 20000 55000
             = Inr st"
      and out: "\<not> in_range st" and cnt: "iterations st = 3"
    by blast
  from claim run have "iterations st \<le> 3"
    by blast
  moreover from claim run
  have "(Some 100 :: real option) = Some (control_variable st)"
    by simp
  then have "control_variable st = 100" by simp
  ultimately show ?thesis
    using run out cnt by blast
qed

end
